theory Spec2Isabelle
  imports Complex_Main "HOL-Library.Log_Nat"
begin

section \<open>Tensors and storage precision\<close>

text \<open>
  The optimizer of \<^verbatim>\<open>bff_optimizer.py\<close> works on dense tensors whose element type
  (\<^verbatim>\<open>torch.dtype\<close>) is chosen per buffer. A tensor is modelled by its dtype and the flat
  list of its elements. Elements are real numbers; every operation that writes a tensor
  rounds each element it writes to the dtype of the tensor written, through a rounding
  function that is a parameter of the whole development. Exact arithmetic is the
  instance \<open>exact\<close>. Infinities and NaN are not modelled: where the code would divide by
  zero or take the root of a negative number the model has HOL's value instead.
\<close>

datatype dtype = BFloat16 | Float16 | Float32 | Float64

type_synonym rounding = "dtype \<Rightarrow> real \<Rightarrow> real"

definition exact :: rounding where
  "exact d x = x"

record tensor =
  dtype_of :: dtype
  elems :: "real list"

definition map3 :: "('a \<Rightarrow> 'b \<Rightarrow> 'c \<Rightarrow> 'd) \<Rightarrow> 'a list \<Rightarrow> 'b list \<Rightarrow> 'c list \<Rightarrow> 'd list" where
  "map3 f xs ys zs = map (\<lambda>(a, b, c). f a b c) (zip xs (zip ys zs))"

definition zeros_like :: "tensor \<Rightarrow> dtype \<Rightarrow> tensor" where
  \<comment> \<open>\<^verbatim>\<open>torch.zeros_like(p, dtype=d)\<close>: the shape of \<open>p\<close>, the dtype \<open>d\<close>.\<close>
  "zeros_like p d = \<lparr>dtype_of = d, elems = replicate (length (elems p)) 0\<rparr>"

definition clone :: "tensor \<Rightarrow> tensor" where
  \<comment> \<open>\<^verbatim>\<open>p.clone()\<close>: a fresh tensor with the same dtype and elements.\<close>
  "clone x = \<lparr>dtype_of = dtype_of x, elems = elems x\<rparr>"

definition mul_inplace :: "rounding \<Rightarrow> tensor \<Rightarrow> real \<Rightarrow> tensor" where
  \<comment> \<open>\<^verbatim>\<open>x.mul_(c)\<close>\<close>
  "mul_inplace R x c = x\<lparr>elems := map (\<lambda>a. R (dtype_of x) (a * c)) (elems x)\<rparr>"

definition add_inplace :: "rounding \<Rightarrow> tensor \<Rightarrow> tensor \<Rightarrow> real \<Rightarrow> tensor" where
  \<comment> \<open>\<^verbatim>\<open>x.add_(y, alpha=alpha)\<close>\<close>
  "add_inplace R x y alpha =
     x\<lparr>elems := map2 (\<lambda>a b. R (dtype_of x) (a + alpha * b)) (elems x) (elems y)\<rparr>"

definition add_scalar_inplace :: "rounding \<Rightarrow> tensor \<Rightarrow> real \<Rightarrow> real \<Rightarrow> tensor" where
  \<comment> \<open>\<^verbatim>\<open>x.add_(c, alpha=alpha)\<close> with a number \<open>c\<close>\<close>
  "add_scalar_inplace R x c alpha =
     x\<lparr>elems := map (\<lambda>a. R (dtype_of x) (a + alpha * c)) (elems x)\<rparr>"

definition sub_inplace :: "rounding \<Rightarrow> tensor \<Rightarrow> tensor \<Rightarrow> tensor" where
  \<comment> \<open>\<^verbatim>\<open>x.sub_(y)\<close>\<close>
  "sub_inplace R x y =
     x\<lparr>elems := map2 (\<lambda>a b. R (dtype_of x) (a - b)) (elems x) (elems y)\<rparr>"

definition addcmul_inplace :: "rounding \<Rightarrow> tensor \<Rightarrow> tensor \<Rightarrow> tensor \<Rightarrow> real \<Rightarrow> tensor" where
  \<comment> \<open>\<^verbatim>\<open>x.addcmul_(t1, t2, value=value)\<close>\<close>
  "addcmul_inplace R x t1 t2 val =
     x\<lparr>elems := map3 (\<lambda>a b c. R (dtype_of x) (a + val * (b * c)))
                      (elems x) (elems t1) (elems t2)\<rparr>"

definition addcdiv_inplace :: "rounding \<Rightarrow> tensor \<Rightarrow> tensor \<Rightarrow> tensor \<Rightarrow> real \<Rightarrow> tensor" where
  \<comment> \<open>\<^verbatim>\<open>x.addcdiv_(t1, t2, value=value)\<close>\<close>
  "addcdiv_inplace R x t1 t2 val =
     x\<lparr>elems := map3 (\<lambda>a b c. R (dtype_of x) (a + val * (b / c)))
                      (elems x) (elems t1) (elems t2)\<rparr>"

definition tensor_sqrt :: "rounding \<Rightarrow> tensor \<Rightarrow> tensor" where
  \<comment> \<open>\<^verbatim>\<open>x.sqrt()\<close>: a new tensor of the dtype of \<open>x\<close>\<close>
  "tensor_sqrt R x = \<lparr>dtype_of = dtype_of x, elems = map (\<lambda>a. R (dtype_of x) (sqrt a)) (elems x)\<rparr>"

definition tensor_div :: "rounding \<Rightarrow> tensor \<Rightarrow> real \<Rightarrow> tensor" where
  \<comment> \<open>\<^verbatim>\<open>x / c\<close> with a zero-dimensional \<open>c\<close>: a new tensor of the dtype of \<open>x\<close> (type
      promotion lets the tensor with dimensions decide)\<close>
  "tensor_div R x c = \<lparr>dtype_of = dtype_of x, elems = map (\<lambda>a. R (dtype_of x) (a / c)) (elems x)\<rparr>"


section \<open>Parameters, gradients, hyperparameters and optimizer state\<close>

text \<open>
  \<^verbatim>\<open>p.grad\<close> is absent (\<open>None\<close>), a dense tensor or a sparse tensor (\<^verbatim>\<open>p.grad.is_sparse\<close>),
  the latter given by its dtype and its index/value pairs.
\<close>

datatype gradient = Dense tensor | Sparse dtype "(nat \<times> real) list"

record param =
  data :: tensor
  grad :: "gradient option"

text \<open>
  One entry of \<^verbatim>\<open>self.state\<close>: the dictionary with the keys \<^verbatim>\<open>"step"\<close>, \<^verbatim>\<open>"exp_avg"\<close>,
  \<^verbatim>\<open>"exp_avg_sq"\<close> and, when it was created with Kahan summation, \<^verbatim>\<open>"compensation"\<close>. The
  empty dictionary (\<^verbatim>\<open>len(state) == 0\<close>) is \<open>None\<close> of \<open>pstate option\<close>. The counter is the
  zero-dimensional tensor \<^verbatim>\<open>torch.tensor(0.0)\<close>, of torch's default dtype \<^verbatim>\<open>float32\<close>. It only
  ever holds a whole number and is modelled by that number; \<^verbatim>\<open>state["step"] += 1\<close> adds one
  and rounds the sum to \<^verbatim>\<open>float32\<close>, which \<open>float32_nat\<close> does on whole numbers.
\<close>

record pstate =
  step :: nat
  exp_avg :: tensor
  exp_avg_sq :: tensor
  compensation :: "tensor option"

definition float32_nat :: "nat \<Rightarrow> nat" where
  \<comment> \<open>the \<^verbatim>\<open>float32\<close> nearest to a whole number (24 significant bits, ties to the even
      significand); the overflow to infinity above \<open>2^128\<close> is not modelled\<close>
  "float32_nat n =
     (if floorlog 2 n \<le> 24 then n
      else (let e = floorlog 2 n - 24; q = n div 2 ^ e; r = n mod 2 ^ e
            in if 2 * r < 2 ^ e \<or> (2 * r = 2 ^ e \<and> even q) then q * 2 ^ e
               else (q + 1) * 2 ^ e))"

text \<open>One entry of \<^verbatim>\<open>self.param_groups\<close>; \<open>params\<close> lists the parameters by identity.\<close>

record group =
  lr :: real
  beta1 :: real
  beta2 :: real
  eps :: real
  weight_decay :: real
  use_kahan_summation :: bool
  momentum_dtype :: dtype
  variance_dtype :: dtype
  compensation_buffer_dtype :: dtype
  params :: "nat list"

datatype error =
    RuntimeError_sparse    \<comment> \<open>\<^verbatim>\<open>RuntimeError("BFF does not support sparse gradients")\<close>\<close>
  | KeyError_compensation  \<comment> \<open>\<^verbatim>\<open>state["compensation"]\<close> on a state without that key\<close>


section \<open>The update of one parameter\<close>

definition init_state :: "group \<Rightarrow> tensor \<Rightarrow> pstate" where
  \<comment> \<open>the block under \<^verbatim>\<open>if len(state) == 0\<close>\<close>
  "init_state g p =
     \<lparr>step = 0,
      exp_avg = zeros_like p (momentum_dtype g),
      exp_avg_sq = zeros_like p (variance_dtype g),
      compensation = (if use_kahan_summation g
                      then Some (zeros_like p (compensation_buffer_dtype g)) else None)\<rparr>"

definition get_state :: "group \<Rightarrow> tensor \<Rightarrow> pstate option \<Rightarrow> pstate" where
  \<comment> \<open>\<^verbatim>\<open>state = self.state[p]\<close>, initialised when it is empty\<close>
  "get_state g p st = (case st of None \<Rightarrow> init_state g p | Some s \<Rightarrow> s)"

text \<open>
  The scalars derived from the counter are zero-dimensional \<^verbatim>\<open>float32\<close> tensors
  (arithmetic of a Python number with the tensor \<^verbatim>\<open>step\<close>), each operation rounding once.
\<close>

definition bias_correction1 :: "rounding \<Rightarrow> real \<Rightarrow> nat \<Rightarrow> real" where
  \<comment> \<open>\<^verbatim>\<open>1 - beta1**step\<close>\<close>
  "bias_correction1 R b1 t = R Float32 (1 - R Float32 (b1 ^ t))"

definition step_size :: "rounding \<Rightarrow> real \<Rightarrow> real \<Rightarrow> nat \<Rightarrow> real" where
  \<comment> \<open>\<^verbatim>\<open>lr / bias_correction1\<close>\<close>
  "step_size R l b1 t = R Float32 (l / bias_correction1 R b1 t)"

definition denom_correction :: "rounding \<Rightarrow> real \<Rightarrow> nat \<Rightarrow> real" where
  \<comment> \<open>\<^verbatim>\<open>(1 - beta2**step) ** 0.5\<close>\<close>
  "denom_correction R b2 t = R Float32 (sqrt (R Float32 (1 - R Float32 (b2 ^ t))))"

definition centered_variance :: "rounding \<Rightarrow> tensor \<Rightarrow> real \<Rightarrow> real \<Rightarrow> tensor" where
  \<comment> \<open>\<^verbatim>\<open>(exp_avg_sq.sqrt() / denom_correction).add_(eps, alpha=1)\<close>\<close>
  "centered_variance R v dc e = add_scalar_inplace R (tensor_div R (tensor_sqrt R v) dc) e 1"

text \<open>
  The body of the loop \<^verbatim>\<open>for p in group["params"]\<close>, on the parameter and its entry of
  \<^verbatim>\<open>self.state\<close>. The parameter and the buffers are mutated in place, so the result holds
  what they are when the body ends or raises, beside the exception raised, if any.
\<close>

definition update_param ::
  "rounding \<Rightarrow> group \<Rightarrow> param \<times> pstate option \<Rightarrow> error option \<times> param \<times> pstate option" where
  "update_param R g ps =
     (case ps of (p, st) \<Rightarrow>
        (case grad p of
           None \<Rightarrow> (None, p, st)
         | Some (Sparse d ivs) \<Rightarrow> (Some RuntimeError_sparse, p, st)
         | Some (Dense gr) \<Rightarrow>
            (let state0 = get_state g (data p) st;
                 state1 = state0\<lparr>step := float32_nat (step state0 + 1)\<rparr>;
                 t = step state1;
                 p1 = (if weight_decay g \<noteq> 0
                       then p\<lparr>data := mul_inplace R (data p) (1 - lr g * weight_decay g)\<rparr>
                       else p);
                 m = add_inplace R (mul_inplace R (exp_avg state1) (beta1 g)) gr (1 - beta1 g);
                 v = addcmul_inplace R (mul_inplace R (exp_avg_sq state1) (beta2 g)) gr gr
                       (1 - beta2 g);
                 state2 = state1\<lparr>exp_avg := m, exp_avg_sq := v\<rparr>;
                 ss = step_size R (lr g) (beta1 g) t;
                 dc = denom_correction R (beta2 g) t;
                 cv = centered_variance R v dc (eps g)
             in if use_kahan_summation g then
                  (case compensation state2 of
                     None \<Rightarrow> (Some KeyError_compensation, p1, Some state2)
                   | Some c \<Rightarrow>
                      (let c1 = addcdiv_inplace R c m cv (- ss);
                           temp_buffer = clone (data p1);
                           pd = add_inplace R (data p1) c1 1;
                           c2 = add_inplace R c1 (sub_inplace R temp_buffer pd) 1
                       in (None, p1\<lparr>data := pd\<rparr>, Some (state2\<lparr>compensation := Some c2\<rparr>))))
                else
                  (None, p1\<lparr>data := addcdiv_inplace R (data p1) m cv (- ss)\<rparr>, Some state2))))"


section \<open>The optimizer step\<close>

text \<open>
  The optimizer object: its parameter groups, the parameters they refer to (a store
  indexed by parameter identity) and \<^verbatim>\<open>self.state\<close>, which has an entry for a parameter
  once the loop body got past its two gradient checks.
\<close>

record optimizer =
  param_groups :: "group list"
  parameters :: "nat \<Rightarrow> param"
  state :: "nat \<Rightarrow> pstate option"

fun params_loop :: "rounding \<Rightarrow> group \<Rightarrow> nat list \<Rightarrow> optimizer \<Rightarrow> error option \<times> optimizer" where
  "params_loop R g [] w = (None, w)"
| "params_loop R g (i # is) w =
     (case update_param R g (parameters w i, state w i) of
        (err, p', st') \<Rightarrow>
          (let w' = w\<lparr>parameters := (parameters w)(i := p'), state := (state w)(i := st')\<rparr>
           in case err of Some e \<Rightarrow> (Some e, w') | None \<Rightarrow> params_loop R g is w'))"

fun groups_loop :: "rounding \<Rightarrow> group list \<Rightarrow> optimizer \<Rightarrow> error option \<times> optimizer" where
  "groups_loop R [] w = (None, w)"
| "groups_loop R (g # gs) w =
     (case params_loop R g (params g) w of
        (Some e, w') \<Rightarrow> (Some e, w')
      | (None, w') \<Rightarrow> groups_loop R gs w')"

definition BFF_AdamW_step ::
  "rounding \<Rightarrow> (optimizer \<Rightarrow> optimizer) option \<Rightarrow> optimizer \<Rightarrow> error option \<times> optimizer" where
  \<comment> \<open>\<^verbatim>\<open>BFF_AdamW.step(closure)\<close>; the closure is any action on the optimizer's world\<close>
  "BFF_AdamW_step R closure w =
     (let w1 = (case closure of None \<Rightarrow> w | Some c \<Rightarrow> c w)
      in groups_loop R (param_groups w1) w1)"


section \<open>Calls over time\<close>

fun is_sparse :: "gradient \<Rightarrow> bool" where
  \<comment> \<open>\<^verbatim>\<open>p.grad.is_sparse\<close>\<close>
  "is_sparse (Dense t) = False"
| "is_sparse (Sparse d ivs) = True"

definition step_of :: "pstate option \<Rightarrow> nat" where
  \<comment> \<open>the number of updates counted for a parameter; none before its state exists\<close>
  "step_of st = (case st of None \<Rightarrow> 0 | Some s \<Rightarrow> step s)"

text \<open>
  A training run as far as one parameter sees it. The training loop is not part of the
  optimizer: before each call of the update the differentiation engine leaves a new
  gradient, or none, in \<^verbatim>\<open>p.grad\<close>. A call that raises ends the run.
\<close>

fun run_calls ::
  "rounding \<Rightarrow> group \<Rightarrow> gradient option list \<Rightarrow> param \<times> pstate option
     \<Rightarrow> error option \<times> param \<times> pstate option" where
  "run_calls R g [] ps = (None, ps)"
| "run_calls R g (gr # grs) ps =
     (case update_param R g ((fst ps)\<lparr>grad := gr\<rparr>, snd ps) of
        (Some e, ps') \<Rightarrow> (Some e, ps')
      | (None, ps') \<Rightarrow> run_calls R g grs ps')"

definition kahan_ready :: "group \<Rightarrow> pstate option \<Rightarrow> bool" where
  \<comment> \<open>a state that exists has the compensation buffer the group asks for\<close>
  "kahan_ready g st =
     (case st of None \<Rightarrow> True
      | Some s \<Rightarrow> \<not> use_kahan_summation g \<or> compensation s \<noteq> None)"


section \<open>The compensated apply, step by step\<close>

text \<open>
  The four operations of the compensated apply as the specification words them, each
  writing one buffer and rounding what it writes to the precision of that buffer:
  (1) the compensation is decremented by step size times momentum over centered variance,
  (2) a snapshot of the parameter is taken, (3) the parameter is incremented by the
  compensation, (4) the compensation is incremented by snapshot minus updated parameter.
\<close>

definition kahan_decrement :: "rounding \<Rightarrow> real \<Rightarrow> tensor \<Rightarrow> tensor \<Rightarrow> tensor \<Rightarrow> tensor" where
  "kahan_decrement R ss m cv c =
     c\<lparr>elems := map3 (\<lambda>ci mi vi. R (dtype_of c) (ci - ss * mi / vi)) (elems c) (elems m) (elems cv)\<rparr>"

definition kahan_snapshot :: "tensor \<Rightarrow> tensor" where
  "kahan_snapshot p = p"

definition kahan_increment :: "rounding \<Rightarrow> tensor \<Rightarrow> tensor \<Rightarrow> tensor" where
  "kahan_increment R p c =
     p\<lparr>elems := map2 (\<lambda>pi ci. R (dtype_of p) (pi + ci)) (elems p) (elems c)\<rparr>"

definition kahan_recover :: "rounding \<Rightarrow> tensor \<Rightarrow> tensor \<Rightarrow> tensor \<Rightarrow> tensor" where
  "kahan_recover R c snapshot p =
     c\<lparr>elems := map3 (\<lambda>ci si pi. R (dtype_of c) (ci + R (dtype_of snapshot) (si - pi)))
                      (elems c) (elems snapshot) (elems p)\<rparr>"

definition kahan_four_steps ::
  "rounding \<Rightarrow> real \<Rightarrow> tensor \<Rightarrow> tensor \<Rightarrow> tensor \<times> tensor \<Rightarrow> tensor \<times> tensor" where
  "kahan_four_steps R ss m cv pc =
     (case pc of (p, c) \<Rightarrow>
        (let c1 = kahan_decrement R ss m cv c;
             snapshot = kahan_snapshot p;
             p3 = kahan_increment R p c1;
             c4 = kahan_recover R c1 snapshot p3
         in (p3, c4)))"

section \<open>Twin states\<close>

text \<open>
  The states of two runs on the same parameter and gradients, one with Kahan summation and
  one without, as exact arithmetic keeps them: both absent, or both present with the same
  counter and moment buffers of the shape \<open>n\<close> of the parameter, the first with a
  compensation buffer of \<open>n\<close> zeros.
\<close>

definition exact_twins :: "nat \<Rightarrow> pstate option \<Rightarrow> pstate option \<Rightarrow> bool" where
  "exact_twins n stk std =
     (case stk of
        None \<Rightarrow> std = None
      | Some sk \<Rightarrow>
         (case std of
            None \<Rightarrow> False
          | Some sd \<Rightarrow>
              step sk = step sd \<and> exp_avg sk = exp_avg sd \<and> exp_avg_sq sk = exp_avg_sq sd \<and>
              length (elems (exp_avg sk)) = n \<and> length (elems (exp_avg_sq sk)) = n \<and>
              (case compensation sk of None \<Rightarrow> False | Some c \<Rightarrow> elems c = replicate n 0)))"

section \<open>A concrete scenario\<close>

text \<open>
  A scalar parameter \<open>1.0\<close> with gradient \<open>2.0\<close> under the hyperparameters
  \<open>lr = 0.1\<close>, \<open>betas = (0.9, 0.999)\<close>, \<open>eps = 1e-8\<close>, \<open>weight_decay = 0\<close>, without
  Kahan summation and with \<^verbatim>\<open>float32\<close> buffers; and an optimizer whose parameters carry
  a sparse gradient.
\<close>

definition ex_group :: group where
  "ex_group = \<lparr>lr = 1/10, beta1 = 9/10, beta2 = 999/1000, eps = 1/100000000, weight_decay = 0,
     use_kahan_summation = False, momentum_dtype = Float32, variance_dtype = Float32,
     compensation_buffer_dtype = Float32, params = [0]\<rparr>"

definition ex_grad :: tensor where
  "ex_grad = \<lparr>dtype_of = Float32, elems = [2]\<rparr>"

definition ex_param :: param where
  "ex_param = \<lparr>data = \<lparr>dtype_of = Float32, elems = [1]\<rparr>, grad = Some (Dense ex_grad)\<rparr>"

definition ex_sparse_optimizer :: optimizer where
  "ex_sparse_optimizer =
     \<lparr>param_groups = [ex_group],
      parameters = (\<lambda>i. ex_param\<lparr>grad := Some (Sparse Float32 [(0, 2)])\<rparr>),
      state = (\<lambda>i. None)\<rparr>"

definition ex_group_kahan :: group where
  "ex_group_kahan = ex_group\<lparr>use_kahan_summation := True\<rparr>"


text \<open>
  The weight-decay scenario: parameter \<open>2.0\<close>, \<open>weight_decay = 0.1\<close>, \<open>lr = 0.1\<close>, here with
  a gradient that is present and zero; and a state as one exact step leaves it.
\<close>

definition ex_group_decay :: group where
  "ex_group_decay = ex_group\<lparr>weight_decay := 1/10\<rparr>"

definition ex_param_zero_grad :: param where
  "ex_param_zero_grad = \<lparr>data = \<lparr>dtype_of = Float32, elems = [2]\<rparr>,
     grad = Some (Dense \<lparr>dtype_of = Float32, elems = [0]\<rparr>)\<rparr>"

definition ex_state :: pstate where
  "ex_state = \<lparr>step = 1,
     exp_avg = \<lparr>dtype_of = Float32, elems = [1/5]\<rparr>,
     exp_avg_sq = \<lparr>dtype_of = Float32, elems = [1/250]\<rparr>,
     compensation = Some \<lparr>dtype_of = Float32, elems = [0]\<rparr>\<rparr>"


text \<open>
  A group with Kahan summation and three different buffer dtypes, and the state
  \<open>ex_state\<close> with the compensation buffer holding \<open>1.0\<close> instead of zero.
\<close>

definition ex_group_mixed :: group where
  "ex_group_mixed = ex_group\<lparr>use_kahan_summation := True, momentum_dtype := BFloat16,
     variance_dtype := Float16, compensation_buffer_dtype := Float64\<rparr>"

definition ex_state_compensated :: pstate where
  "ex_state_compensated = ex_state\<lparr>compensation := Some \<lparr>dtype_of = Float32, elems = [1]\<rparr>\<rparr>"


section \<open>The counter\<close>

text \<open>
  Whole numbers below \<open>2^24 = 16777216\<close> are \<^verbatim>\<open>float32\<close> values, so counting is exact up to
  there; \<open>2^24 + 1\<close> is not one and rounds back to \<open>2^24\<close>.
\<close>

lemma float32_nat_exact: "n < 16777216 \<Longrightarrow> float32_nat n = n"
proof -
  assume "n < 16777216"
  then have "n < 2 ^ 24" by simp
  then have "floorlog 2 n \<le> 24" by (intro floorlog_leI) simp_all
  then show ?thesis by (simp add: float32_nat_def)
qed

lemma floorlog_2_24: "floorlog 2 (16777216 :: nat) = 25"
proof -
  have "floorlog 2 (1 * 2 ^ 24) = floorlog 2 1 + 24"
    by (rule floorlog_power) simp_all
  moreover have "floorlog 2 (1::nat) = 1"
    by (simp add: floorlog_def)
  ultimately show ?thesis by simp
qed

lemma floorlog_2_24_1: "floorlog 2 (16777217 :: nat) = 25"
proof (rule antisym)
  show "floorlog 2 (16777217 :: nat) \<le> 25"
    by (intro floorlog_leI) simp_all
  have "Suc 24 \<le> floorlog 2 (16777217 :: nat)"
    by (intro floorlog_ge_SucI) simp_all
  then show "25 \<le> floorlog 2 (16777217 :: nat)" by simp
qed

lemma float32_nat_2_24: "float32_nat 16777216 = 16777216"
  by (simp add: float32_nat_def floorlog_2_24)

lemma float32_nat_saturates: "float32_nat 16777217 = 16777216"
  by (simp add: float32_nat_def floorlog_2_24_1)

lemma float32_nat_pos: "0 < n \<Longrightarrow> 0 < float32_nat n"
proof (cases "floorlog 2 n \<le> 24")
  case True
  assume "0 < n"
  with True show ?thesis by (simp add: float32_nat_def)
next
  case False
  assume n: "0 < n"
  define e where "e = floorlog 2 n - 24"
  have "(2::nat) ^ (floorlog 2 n - 1) \<le> n"
    using floorlog_bounds[of n 2] n by simp
  moreover have "(2::nat) ^ e \<le> 2 ^ (floorlog 2 n - 1)"
    unfolding e_def by (intro power_increasing) simp_all
  ultimately have "2 ^ e \<le> n" by (rule order_trans[rotated])
  then have "0 < n div 2 ^ e"
    by (simp add: div_greater_zero_iff)
  then have "0 < n div 2 ^ e * 2 ^ e" by simp
  with False show ?thesis
    by (simp add: float32_nat_def Let_def e_def)
qed

lemma float32_nat_Suc:
  "n \<le> 16777216 \<Longrightarrow> float32_nat (n + 1) = min (n + 1) 16777216"
proof -
  assume "n \<le> 16777216"
  then consider "n + 1 < 16777216" | "n + 1 = 16777216" | "n = 16777216" by linarith
  then show ?thesis
  proof cases
    case 1
    then show ?thesis by (simp add: float32_nat_exact)
  next
    case 2
    then show ?thesis by (simp add: float32_nat_2_24)
  next
    case 3
    then show ?thesis using float32_nat_saturates by simp
  qed
qed


section \<open>Elementwise operations\<close>

lemma map3_same: "map3 f xs ys ys = map2 (\<lambda>a b. f a b b) xs ys"
  unfolding map3_def
  by (induction xs ys rule: list_induct2') simp_all

lemma length_map3: "length (map3 f xs ys zs) = min (length xs) (min (length ys) (length zs))"
  by (simp add: map3_def)

lemma nth_map3:
  "i < length xs \<Longrightarrow> i < length ys \<Longrightarrow> i < length zs \<Longrightarrow>
   map3 f xs ys zs ! i = f (xs ! i) (ys ! i) (zs ! i)"
  by (simp add: map3_def)

lemma map2_map2_right:
  "map2 f xs (map2 h ys zs) = map3 (\<lambda>a b c. f a (h b c)) xs ys zs"
  by (simp add: map3_def zip_map2 case_prod_unfold)

lemma elems_ops [simp]:
  "elems (mul_inplace R x c) = map (\<lambda>a. R (dtype_of x) (a * c)) (elems x)"
  "elems (add_inplace R x y al) = map2 (\<lambda>a b. R (dtype_of x) (a + al * b)) (elems x) (elems y)"
  "elems (add_scalar_inplace R x c al) = map (\<lambda>a. R (dtype_of x) (a + al * c)) (elems x)"
  "elems (sub_inplace R x y) = map2 (\<lambda>a b. R (dtype_of x) (a - b)) (elems x) (elems y)"
  "elems (addcmul_inplace R x t1 t2 k) =
     map3 (\<lambda>a b c. R (dtype_of x) (a + k * (b * c))) (elems x) (elems t1) (elems t2)"
  "elems (addcdiv_inplace R x t1 t2 k) =
     map3 (\<lambda>a b c. R (dtype_of x) (a + k * (b / c))) (elems x) (elems t1) (elems t2)"
  "elems (tensor_sqrt R x) = map (\<lambda>a. R (dtype_of x) (sqrt a)) (elems x)"
  "elems (tensor_div R x c) = map (\<lambda>a. R (dtype_of x) (a / c)) (elems x)"
  "elems (clone x) = elems x"
  "elems (zeros_like x d) = replicate (length (elems x)) 0"
  by (simp_all add: mul_inplace_def add_inplace_def add_scalar_inplace_def sub_inplace_def
      addcmul_inplace_def addcdiv_inplace_def tensor_sqrt_def tensor_div_def clone_def
      zeros_like_def)

lemma dtype_ops [simp]:
  "dtype_of (mul_inplace R x c) = dtype_of x"
  "dtype_of (add_inplace R x y al) = dtype_of x"
  "dtype_of (add_scalar_inplace R x c al) = dtype_of x"
  "dtype_of (sub_inplace R x y) = dtype_of x"
  "dtype_of (addcmul_inplace R x t1 t2 k) = dtype_of x"
  "dtype_of (addcdiv_inplace R x t1 t2 k) = dtype_of x"
  "dtype_of (tensor_sqrt R x) = dtype_of x"
  "dtype_of (tensor_div R x c) = dtype_of x"
  "dtype_of (clone x) = dtype_of x"
  "dtype_of (zeros_like x d) = d"
  by (simp_all add: mul_inplace_def add_inplace_def add_scalar_inplace_def sub_inplace_def
      addcmul_inplace_def addcdiv_inplace_def tensor_sqrt_def tensor_div_def clone_def
      zeros_like_def)

text \<open>The update with a dense gradient, written out.\<close>

lemma update_param_dense:
  fixes R :: rounding and g :: group and p :: param and st :: "pstate option" and gr :: tensor
  assumes "grad p = Some (Dense gr)"
  defines "s0 \<equiv> get_state g (data p) st"
  defines "t \<equiv> float32_nat (step s0 + 1)"
  defines "pd1 \<equiv> (if weight_decay g \<noteq> 0
                    then mul_inplace R (data p) (1 - lr g * weight_decay g) else data p)"
  defines "m \<equiv> add_inplace R (mul_inplace R (exp_avg s0) (beta1 g)) gr (1 - beta1 g)"
  defines "v \<equiv> addcmul_inplace R (mul_inplace R (exp_avg_sq s0) (beta2 g)) gr gr (1 - beta2 g)"
  defines "ss \<equiv> step_size R (lr g) (beta1 g) t"
  defines "cv \<equiv> centered_variance R v (denom_correction R (beta2 g) t) (eps g)"
  defines "s2 \<equiv> s0\<lparr>step := t, exp_avg := m, exp_avg_sq := v\<rparr>"
  shows "update_param R g (p, st) =
     (if use_kahan_summation g then
        (case compensation s0 of
           None \<Rightarrow> (Some KeyError_compensation, p\<lparr>data := pd1\<rparr>, Some s2)
         | Some c \<Rightarrow>
            (None,
             p\<lparr>data := add_inplace R pd1 (addcdiv_inplace R c m cv (- ss)) 1\<rparr>,
             Some (s2\<lparr>compensation :=
                Some (add_inplace R (addcdiv_inplace R c m cv (- ss))
                  (sub_inplace R (clone pd1)
                     (add_inplace R pd1 (addcdiv_inplace R c m cv (- ss)) 1)) 1)\<rparr>)))
      else (None, p\<lparr>data := addcdiv_inplace R pd1 m cv (- ss)\<rparr>, Some s2))"
  using assms(1)
  unfolding s0_def t_def pd1_def m_def v_def ss_def cv_def s2_def
  by (simp add: update_param_def Let_def split: option.splits)

lemma update_param_sparse:
  "grad p = Some (Sparse d ivs) \<Longrightarrow> update_param R g (p, st) = (Some RuntimeError_sparse, p, st)"
  by (simp add: update_param_def)

lemma update_param_absent:
  "grad p = None \<Longrightarrow> update_param R g (p, st) = (None, p, st)"
  by (simp add: update_param_def)

lemma update_param_grad:
  "update_param R g (p, st) = (err, p', st') \<Longrightarrow> grad p' = grad p"
  by (auto simp: update_param_def Let_def split: option.splits gradient.splits if_splits)

lemma step_get_state: "step (get_state g d st) = step_of st"
  by (simp add: get_state_def step_of_def init_state_def split: option.splits)

lemma update_param_step:
  "step_of (snd (snd (update_param R g (p\<lparr>grad := Some (Dense gr)\<rparr>, st))))
     = float32_nat (step_of st + 1)"
  by (simp add: update_param_dense step_get_state step_of_def split: option.splits)

lemma update_param_dense_ok:
  assumes "grad p = Some (Dense gr)" and "kahan_ready g st"
  shows "\<exists>p' s'. update_param R g (p, st) = (None, p', Some s') \<and>
           step s' = float32_nat (step_of st + 1) \<and> kahan_ready g (Some s')"
  using assms
  by (auto simp: update_param_dense step_of_def kahan_ready_def init_state_def get_state_def
      split: option.splits if_splits)

lemma run_calls_steps:
  assumes "\<forall>x\<in>set grs. \<forall>y. x = Some y \<longrightarrow> \<not> is_sparse y" and "kahan_ready g st"
    and "step_of st \<le> 16777216"
  shows "\<exists>p' st'. run_calls R g grs (p, st) = (None, p', st') \<and>
           step_of st' = min (step_of st + length (filter (\<lambda>x. x \<noteq> None) grs)) 16777216 \<and>
           kahan_ready g st'"
  using assms
proof (induction grs arbitrary: p st)
  case Nil
  then show ?case by simp
next
  case (Cons x grs)
  show ?case
  proof (cases x)
    case None
    then have "update_param R g (p\<lparr>grad := x\<rparr>, st) = (None, p\<lparr>grad := x\<rparr>, st)"
      by (simp add: update_param_absent)
    moreover from Cons.IH[of st "p\<lparr>grad := x\<rparr>"] Cons.prems
    obtain p' st' where "run_calls R g grs (p\<lparr>grad := x\<rparr>, st) = (None, p', st')"
      "step_of st' = min (step_of st + length (filter (\<lambda>x. x \<noteq> None) grs)) 16777216"
      "kahan_ready g st'"
      by auto
    ultimately show ?thesis using None by simp
  next
    case (Some y)
    with Cons.prems obtain t where y: "y = Dense t" by (cases y) auto
    from update_param_dense_ok[of "p\<lparr>grad := x\<rparr>" t g st R] Some y Cons.prems
    obtain p1 s1 where u: "update_param R g (p\<lparr>grad := x\<rparr>, st) = (None, p1, Some s1)"
      "step s1 = float32_nat (step_of st + 1)" "kahan_ready g (Some s1)" by auto
    from u(2) Cons.prems(3) have s1: "step s1 = min (step_of st + 1) 16777216"
      using float32_nat_Suc[of "step_of st"] by simp
    then have "step_of (Some s1) \<le> 16777216"
      by (simp add: step_of_def)
    from Cons.IH[OF _ u(3) this, of p1] Cons.prems(1)
    obtain p' st' where r: "run_calls R g grs (p1, Some s1) = (None, p', st')"
      "step_of st' = min (step_of (Some s1) + length (filter (\<lambda>x. x \<noteq> None) grs)) 16777216"
      "kahan_ready g st'"
      by auto
    from r(2) s1 have "step_of st' =
        min (step_of st + length (filter (\<lambda>x. x \<noteq> None) (x # grs))) 16777216"
      using Some by (simp add: step_of_def)
    with u r Some show ?thesis by simp
  qed
qed

lemma params_loop_grad:
  "params_loop R g is w = (err, w') \<Longrightarrow> grad (parameters w' i) = grad (parameters w i)"
proof (induction "is" arbitrary: w)
  case Nil
  then show ?case by simp
next
  case (Cons j js)
  obtain e p' st' where u: "update_param R g (parameters w j, state w j) = (e, p', st')"
    by (cases "update_param R g (parameters w j, state w j)") auto
  define w1 where "w1 = w\<lparr>parameters := (parameters w)(j := p'), state := (state w)(j := st')\<rparr>"
  have g1: "grad (parameters w1 i) = grad (parameters w i)"
    using update_param_grad[OF u] by (simp add: w1_def)
  show ?case
  proof (cases e)
    case None
    with Cons.prems u have "params_loop R g js w1 = (err, w')" by (simp add: w1_def)
    from Cons.IH[OF this] g1 show ?thesis by simp
  next
    case (Some a)
    with Cons.prems u have "w' = w1" by (simp add: w1_def)
    with g1 show ?thesis by simp
  qed
qed

lemma groups_loop_grad:
  "groups_loop R gs w = (err, w') \<Longrightarrow> grad (parameters w' i) = grad (parameters w i)"
proof (induction gs arbitrary: w)
  case Nil
  then show ?case by simp
next
  case (Cons g gs)
  obtain e w1 where l: "params_loop R g (params g) w = (e, w1)"
    by (cases "params_loop R g (params g) w") auto
  note g1 = params_loop_grad[OF l, of i]
  show ?case
  proof (cases e)
    case None
    with Cons.prems l have "groups_loop R gs w1 = (err, w')" by simp
    from Cons.IH[OF this] g1 show ?thesis by simp
  next
    case (Some a)
    with Cons.prems l have "w' = w1" by simp
    with g1 show ?thesis by simp
  qed
qed

lemma params_loop_sparse:
  assumes "grad (parameters w i) = Some (Sparse d ivs)" and "params_loop R g is w = (err, w')"
  shows "parameters w' i = parameters w i \<and> state w' i = state w i \<and> (i \<in> set is \<longrightarrow> err \<noteq> None)"
  using assms
proof (induction "is" arbitrary: w)
  case Nil
  then show ?case by simp
next
  case (Cons j js)
  obtain e p' st' where u: "update_param R g (parameters w j, state w j) = (e, p', st')"
    by (cases "update_param R g (parameters w j, state w j)") auto
  define w1 where "w1 = w\<lparr>parameters := (parameters w)(j := p'), state := (state w)(j := st')\<rparr>"
  have same: "parameters w1 i = parameters w i \<and> state w1 i = state w i \<and> (j = i \<longrightarrow> e \<noteq> None)"
  proof (cases "j = i")
    case True
    with u Cons.prems(1) show ?thesis by (auto simp: w1_def update_param_sparse)
  next
    case False
    then show ?thesis by (simp add: w1_def)
  qed
  show ?case
  proof (cases e)
    case None
    with Cons.prems u have r: "params_loop R g js w1 = (err, w')" by (simp add: w1_def)
    from same Cons.prems(1) have "grad (parameters w1 i) = Some (Sparse d ivs)" by simp
    from Cons.IH[OF this r] same None show ?thesis by auto
  next
    case (Some a)
    with Cons.prems u have "w' = w1" "err = Some a" by (simp_all add: w1_def)
    with same show ?thesis by simp
  qed
qed

lemma groups_loop_sparse:
  assumes "grad (parameters w i) = Some (Sparse d ivs)" and "groups_loop R gs w = (err, w')"
  shows "parameters w' i = parameters w i \<and> state w' i = state w i \<and>
         (i \<in> set (concat (map params gs)) \<longrightarrow> err \<noteq> None)"
  using assms
proof (induction gs arbitrary: w)
  case Nil
  then show ?case by simp
next
  case (Cons g gs)
  obtain e w1 where l: "params_loop R g (params g) w = (e, w1)"
    by (cases "params_loop R g (params g) w") auto
  note same = params_loop_sparse[OF Cons.prems(1) l]
  show ?case
  proof (cases e)
    case None
    with Cons.prems l have r: "groups_loop R gs w1 = (err, w')" by simp
    from same Cons.prems(1) have "grad (parameters w1 i) = Some (Sparse d ivs)" by simp
    from Cons.IH[OF this r] same None show ?thesis by auto
  next
    case (Some a)
    with Cons.prems l have "w' = w1" "err = Some a" by simp_all
    with same show ?thesis by simp
  qed
qed


section \<open>Counting, failure and frame properties\<close>

lemma run_calls_absent:
  "\<forall>x\<in>set grs. x = None \<Longrightarrow> snd (snd (run_calls R g grs (p, st))) = st"
proof (induction grs arbitrary: p)
  case Nil
  then show ?case by simp
next
  case (Cons x grs)
  then have "update_param R g (p\<lparr>grad := x\<rparr>, st) = (None, p\<lparr>grad := x\<rparr>, st)"
    by (simp add: update_param_absent)
  with Cons show ?case by simp
qed

text \<open>
  Claim C5, as stated, fails where the \<^verbatim>\<open>float32\<close> counter stops counting: at the counter
  value \<open>2^24 = 16777216\<close> a call with a dense gradient leaves the counter where it is, and
  after a run of \<open>16777217\<close> calls, each with a dense gradient, on a fresh parameter the
  counter is \<open>16777216\<close>.
\<close>

theorem step_counter_stalls_at_2_24:
  "step_of (Some (ex_state\<lparr>step := 16777216\<rparr>)) = 16777216
   \<and> step_of (snd (snd (update_param exact ex_group
         (ex_param\<lparr>grad := Some (Dense ex_grad)\<rparr>, Some (ex_state\<lparr>step := 16777216\<rparr>)))))
       = 16777216
   \<and> length (replicate 16777217 (Some (Dense ex_grad))) = 16777217
   \<and> step_of (snd (snd (run_calls exact ex_group
         (replicate 16777217 (Some (Dense ex_grad))) (ex_param, None)))) = 16777216"
proof -
  have a: "step_of (Some (ex_state\<lparr>step := 16777216\<rparr>)) = 16777216"
    by (simp add: step_of_def)
  have b: "step_of (snd (snd (update_param exact ex_group
         (ex_param\<lparr>grad := Some (Dense ex_grad)\<rparr>, Some (ex_state\<lparr>step := 16777216\<rparr>)))))
       = 16777216"
    unfolding update_param_step a using float32_nat_saturates by simp
  have c: "length (filter (\<lambda>x. x \<noteq> None) (replicate 16777217 (Some (Dense ex_grad))))
       = 16777217"
    by (simp add: filter_replicate)
  have h1: "\<forall>x\<in>set (replicate 16777217 (Some (Dense ex_grad))). \<forall>y. x = Some y \<longrightarrow> \<not> is_sparse y"
    by simp
  have h2: "kahan_ready ex_group None"
    by (simp add: kahan_ready_def)
  have h3: "step_of None \<le> 16777216"
    by (simp add: step_of_def)
  from run_calls_steps[OF h1 h2 h3, of exact ex_param]
  have d: "step_of (snd (snd (run_calls exact ex_group
         (replicate 16777217 (Some (Dense ex_grad))) (ex_param, None)))) = 16777216"
    unfolding c by (auto simp: step_of_def)
  have e: "length (replicate 16777217 (Some (Dense ex_grad))) = 16777217"
    by simp
  from a b e d show ?thesis by blast
qed

text \<open>
  Claim C5, amended. A call with a dense gradient present raises the counter of the
  parameter by exactly one as long as the counter is below \<open>2^24 = 16777216\<close> (a parameter
  without state counts as zero); in general the counter becomes the \<^verbatim>\<open>float32\<close> nearest to
  its successor. A call with an absent gradient leaves the parameter and its whole state,
  the counter included, as they were. Hence after any run of calls, each with a dense
  gradient or none, on a parameter that was never updated, the counter is the number \<open>n\<close> of
  calls that had a gradient if \<open>n \<le> 2^24\<close>, and \<open>2^24\<close> beyond; from an existing state with a
  counter of at most \<open>2^24\<close> that has the buffers the group asks for, it has grown by that
  number, up to \<open>2^24\<close>.
\<close>

theorem step_counts_present_gradients:
  "(step_of st < 16777216 \<longrightarrow>
      step_of (snd (snd (update_param R g (p\<lparr>grad := Some (Dense gr)\<rparr>, st)))) = step_of st + 1)
   \<and> step_of (snd (snd (update_param R g (p\<lparr>grad := Some (Dense gr)\<rparr>, st))))
       = float32_nat (step_of st + 1)
   \<and> update_param R g (p\<lparr>grad := None\<rparr>, st) = (None, p\<lparr>grad := None\<rparr>, st)
   \<and> ((\<forall>x\<in>set grs. \<forall>y. x = Some y \<longrightarrow> \<not> is_sparse y) \<longrightarrow>
        fst (run_calls R g grs (p, None)) = None \<and>
        step_of (snd (snd (run_calls R g grs (p, None))))
          = min (length (filter (\<lambda>x. x \<noteq> None) grs)) 16777216)
   \<and> ((\<forall>x\<in>set grs. \<forall>y. x = Some y \<longrightarrow> \<not> is_sparse y) \<and> kahan_ready g st
        \<and> step_of st \<le> 16777216 \<longrightarrow>
        fst (run_calls R g grs (p, st)) = None \<and>
        step_of (snd (snd (run_calls R g grs (p, st)))) =
          min (step_of st + length (filter (\<lambda>x. x \<noteq> None) grs)) 16777216)"
proof -
  have a: "step_of (snd (snd (update_param R g (p\<lparr>grad := Some (Dense gr)\<rparr>, st))))
       = float32_nat (step_of st + 1)"
    by (rule update_param_step)
  have a': "step_of (snd (snd (update_param R g (p\<lparr>grad := Some (Dense gr)\<rparr>, st))))
       = step_of st + 1" if "step_of st < 16777216"
    using that float32_nat_Suc[of "step_of st"] unfolding a by simp
  have b: "update_param R g (p\<lparr>grad := None\<rparr>, st) = (None, p\<lparr>grad := None\<rparr>, st)"
    by (simp add: update_param_absent)
  have c: "fst (run_calls R g grs (p, s)) = None \<and>
        step_of (snd (snd (run_calls R g grs (p, s)))) =
          min (step_of s + length (filter (\<lambda>x. x \<noteq> None) grs)) 16777216"
    if "\<forall>x\<in>set grs. \<forall>y. x = Some y \<longrightarrow> \<not> is_sparse y" and "kahan_ready g s"
      and "step_of s \<le> 16777216" for s
    using run_calls_steps[OF that, of R p] by auto
  have k: "kahan_ready g None" "step_of None \<le> 16777216"
    by (simp_all add: kahan_ready_def step_of_def)
  have c0: "fst (run_calls R g grs (p, None)) = None \<and>
        step_of (snd (snd (run_calls R g grs (p, None)))) =
          min (length (filter (\<lambda>x. x \<noteq> None) grs)) 16777216"
    if "\<forall>x\<in>set grs. \<forall>y. x = Some y \<longrightarrow> \<not> is_sparse y"
    using c[OF that k] by (simp add: step_of_def)
  from a a' b c0 c show ?thesis by blast
qed

theorem step_counts_present_gradients_witness:
  "list_all (\<lambda>x. x = None \<or> x = Some (Dense ex_grad))
      [Some (Dense ex_grad), None, Some (Dense ex_grad)]
   \<and> kahan_ready ex_group None
   \<and> step_of None < 16777216
   \<and> step_of (snd (snd (update_param exact ex_group (ex_param, None)))) = 1
   \<and> fst (run_calls exact ex_group [Some (Dense ex_grad), None, Some (Dense ex_grad)]
            (ex_param, None)) = None
   \<and> step_of (snd (snd (run_calls exact ex_group [Some (Dense ex_grad), None, Some (Dense ex_grad)]
            (ex_param, None)))) = 2"
  using step_counts_present_gradients
    [where R = exact and g = ex_group and p = ex_param and gr = ex_grad and st = None
       and grs = "[Some (Dense ex_grad), None, Some (Dense ex_grad)]"]
  by (simp add: kahan_ready_def step_of_def ex_param_def)

text \<open>
  Claim C6. A call on a parameter whose gradient is sparse raises the error for sparse
  gradients and leaves the parameter, the counter and every buffer of its state exactly as
  they were. For the whole optimizer step: a parameter with a sparse gradient and its state
  are the same after the step as before, and if the parameter belongs to a group the step
  ends with an exception.
\<close>

theorem sparse_gradient_is_fatal:
  "update_param R g (p\<lparr>grad := Some (Sparse d ivs)\<rparr>, st) =
     (Some RuntimeError_sparse, p\<lparr>grad := Some (Sparse d ivs)\<rparr>, st)
   \<and> (grad (parameters w i) = Some (Sparse d ivs) \<longrightarrow>
        parameters (snd (BFF_AdamW_step R None w)) i = parameters w i \<and>
        state (snd (BFF_AdamW_step R None w)) i = state w i \<and>
        (i \<in> set (concat (map params (param_groups w))) \<longrightarrow>
           fst (BFF_AdamW_step R None w) \<noteq> None))"
proof -
  have a: "update_param R g (p\<lparr>grad := Some (Sparse d ivs)\<rparr>, st) =
     (Some RuntimeError_sparse, p\<lparr>grad := Some (Sparse d ivs)\<rparr>, st)"
    by (simp add: update_param_sparse)
  have b: "parameters (snd (BFF_AdamW_step R None w)) i = parameters w i \<and>
        state (snd (BFF_AdamW_step R None w)) i = state w i \<and>
        (i \<in> set (concat (map params (param_groups w))) \<longrightarrow>
           fst (BFF_AdamW_step R None w) \<noteq> None)"
    if h: "grad (parameters w i) = Some (Sparse d ivs)"
  proof -
    obtain err w' where l: "groups_loop R (param_groups w) w = (err, w')"
      by (cases "groups_loop R (param_groups w) w") auto
    from groups_loop_sparse[OF h l] l show ?thesis
      by (simp add: BFF_AdamW_step_def)
  qed
  from a b show ?thesis by blast
qed

theorem sparse_gradient_is_fatal_witness:
  "grad (parameters ex_sparse_optimizer 0) = Some (Sparse Float32 [(0, 2)])
   \<and> 0 \<in> set (concat (map params (param_groups ex_sparse_optimizer)))
   \<and> parameters (snd (BFF_AdamW_step exact None ex_sparse_optimizer)) 0
       = parameters ex_sparse_optimizer 0
   \<and> state (snd (BFF_AdamW_step exact None ex_sparse_optimizer)) 0 = None
   \<and> fst (BFF_AdamW_step exact None ex_sparse_optimizer) \<noteq> None"
  using sparse_gradient_is_fatal
    [where R = exact and g = ex_group and p = ex_param and d = Float32 and ivs = "[(0, 2)]"
       and st = None and w = ex_sparse_optimizer and i = 0]
  by (simp add: ex_sparse_optimizer_def ex_group_def)

text \<open>
  Claim C10. The update never writes a gradient: the update of one parameter returns the
  parameter with the gradient it had, and after a whole optimizer step every parameter of
  the store has the gradient it had when the loop over the groups began (that is, after the
  closure, if one was given), also when the step raises.
\<close>

theorem gradient_is_only_read:
  "grad (fst (snd (update_param R g (p, st)))) = grad p
   \<and> (\<forall>i. grad (parameters (snd (BFF_AdamW_step R closure w)) i) =
            grad (parameters (case closure of None \<Rightarrow> w | Some c \<Rightarrow> c w) i))"
proof -
  obtain err p' st' where u: "update_param R g (p, st) = (err, p', st')"
    by (cases "update_param R g (p, st)") auto
  have a: "grad (fst (snd (update_param R g (p, st)))) = grad p"
    using update_param_grad[OF u] u by simp
  define w1 where "w1 = (case closure of None \<Rightarrow> w | Some c \<Rightarrow> c w)"
  obtain e w' where l: "groups_loop R (param_groups w1) w1 = (e, w')"
    by (cases "groups_loop R (param_groups w1) w1") auto
  have "grad (parameters (snd (BFF_AdamW_step R closure w)) i) = grad (parameters w1 i)" for i
    using groups_loop_grad[OF l, of i] l by (simp add: BFF_AdamW_step_def w1_def)
  with a show ?thesis by (simp add: w1_def)
qed

section \<open>The arithmetic of one update\<close>

lemma exact_apply [simp]: "exact d x = x"
  by (simp add: exact_def)

lemma map2_map_left: "map2 f (map h xs) ys = map2 (\<lambda>a b. f (h a) b) xs ys"
  by (induction xs ys rule: list_induct2') simp_all

text \<open>
  Claim C4. A call with a dense gradient updates both moment buffers in place (same
  dtype), elementwise: momentum becomes \<open>beta1 * momentum + (1 - beta1) * gradient\<close> and
  uncentered variance \<open>beta2 * variance + (1 - beta2) * gradient\<^sup>2\<close>, each of the two
  in-place operations per buffer rounding to the dtype of the buffer (under exact
  arithmetic these are the formulas as written). The apply phase reads the buffers after
  this update: the step uses the centered variance of the updated uncentered variance and
  the updated momentum, at the incremented counter.
\<close>

theorem moments_updated_then_read:
  fixes R :: rounding and g :: group and p :: param and st :: "pstate option" and gr :: tensor
  defines "s0 \<equiv> get_state g (data p) st"
  defines "r \<equiv> update_param R g (p\<lparr>grad := Some (Dense gr)\<rparr>, st)"
  defines "pd1 \<equiv> (if weight_decay g \<noteq> 0
                    then mul_inplace R (data p) (1 - lr g * weight_decay g) else data p)"
  shows "\<exists>s'. snd (snd r) = Some s'
     \<and> dtype_of (exp_avg s') = dtype_of (exp_avg s0)
     \<and> dtype_of (exp_avg_sq s') = dtype_of (exp_avg_sq s0)
     \<and> elems (exp_avg s') =
         map2 (\<lambda>m x. R (dtype_of (exp_avg s0))
                       (R (dtype_of (exp_avg s0)) (m * beta1 g) + (1 - beta1 g) * x))
           (elems (exp_avg s0)) (elems gr)
     \<and> elems (exp_avg_sq s') =
         map2 (\<lambda>v x. R (dtype_of (exp_avg_sq s0))
                       (R (dtype_of (exp_avg_sq s0)) (v * beta2 g) + (1 - beta2 g) * (x * x)))
           (elems (exp_avg_sq s0)) (elems gr)
     \<and> (R = exact \<longrightarrow>
          elems (exp_avg s') =
            map2 (\<lambda>m x. beta1 g * m + (1 - beta1 g) * x) (elems (exp_avg s0)) (elems gr) \<and>
          elems (exp_avg_sq s') =
            map2 (\<lambda>v x. beta2 g * v + (1 - beta2 g) * x\<^sup>2) (elems (exp_avg_sq s0)) (elems gr))
     \<and> (\<not> use_kahan_summation g \<longrightarrow>
          data (fst (snd r)) =
            addcdiv_inplace R pd1 (exp_avg s')
              (centered_variance R (exp_avg_sq s')
                 (denom_correction R (beta2 g) (step s')) (eps g))
              (- step_size R (lr g) (beta1 g) (step s')))
     \<and> (\<forall>c. use_kahan_summation g \<and> compensation s0 = Some c \<longrightarrow>
          data (fst (snd r)) =
            add_inplace R pd1
              (addcdiv_inplace R c (exp_avg s')
                 (centered_variance R (exp_avg_sq s')
                    (denom_correction R (beta2 g) (step s')) (eps g))
                 (- step_size R (lr g) (beta1 g) (step s'))) 1)"
  unfolding r_def s0_def pd1_def
  by (auto simp: update_param_dense map3_same map2_map_left power2_eq_square mult.commute
      split: option.splits)

lemma addcdiv_is_decrement:
  "addcdiv_inplace R c m cv (- ss) = kahan_decrement R ss m cv c"
  by (simp add: addcdiv_inplace_def kahan_decrement_def)

lemma add_is_increment:
  "add_inplace R p c 1 = kahan_increment R p c"
  by (simp add: add_inplace_def kahan_increment_def)

lemma add_sub_clone_is_recover:
  "kahan_increment R c1 (sub_inplace R (clone p) p3) = kahan_recover R c1 p p3"
  by (simp add: kahan_increment_def kahan_recover_def map2_map2_right sub_inplace_def clone_def)

text \<open>
  Claim C1. With Kahan summation on (and a compensation buffer in the state), the apply
  phase of a call with a dense gradient is exactly the four operations of
  \<open>kahan_four_steps\<close> in their order, on the parameter as the weight decay left it and the
  compensation of the state, with the step size, the updated momentum and the centered
  variance of this call; the call raises nothing.
\<close>

theorem kahan_apply_in_order:
  fixes R :: rounding and g :: group and p :: param and st :: "pstate option" and gr :: tensor
  defines "s0 \<equiv> get_state g (data p) st"
  defines "r \<equiv> update_param R g (p\<lparr>grad := Some (Dense gr)\<rparr>, st)"
  defines "pd1 \<equiv> (if weight_decay g \<noteq> 0
                    then mul_inplace R (data p) (1 - lr g * weight_decay g) else data p)"
  assumes "use_kahan_summation g" and "compensation s0 = Some c"
  shows "\<exists>s' c'. r = (None, fst (snd r), Some s') \<and> compensation s' = Some c'
     \<and> (data (fst (snd r)), c') =
         kahan_four_steps R (step_size R (lr g) (beta1 g) (step s')) (exp_avg s')
           (centered_variance R (exp_avg_sq s')
              (denom_correction R (beta2 g) (step s')) (eps g))
           (pd1, c)"
  using assms(4,5) unfolding r_def s0_def pd1_def
  by (simp add: update_param_dense kahan_four_steps_def kahan_snapshot_def Let_def
      addcdiv_is_decrement add_is_increment add_sub_clone_is_recover)


lemma sqrt_250: "sqrt (1/250) = 2 * sqrt (1/1000)"
proof -
  have "sqrt (1/250) = sqrt (4 * (1/1000))" by simp
  also have "\<dots> = sqrt 4 * sqrt (1/1000)" by (simp only: real_sqrt_mult)
  also have "\<dots> = 2 * sqrt (1/1000)" by simp
  finally show ?thesis .
qed

lemma sqrt_1000_pos: "0 < sqrt (1/1000)"
  by simp

lemma sqrt_1000_bounds: "316227/10000000 < sqrt (1/1000)" "sqrt (1/1000) < 316229/10000000"
proof -
  show "316227/10000000 < sqrt (1/1000)"
    by (rule real_less_rsqrt) (simp add: power2_eq_square)
  show "sqrt (1/1000) < 316229/10000000"
    by (rule real_less_lsqrt) (simp_all add: power2_eq_square)
qed

text \<open>
  Claim C2. The scalar scenario under exact arithmetic: parameter \<open>1.0\<close>, gradient
  \<open>2.0\<close>, \<open>lr = 0.1\<close>, \<open>beta1 = 0.9\<close>, \<open>beta2 = 0.999\<close>, \<open>eps = 1e-8\<close>, no weight decay, no
  compensation. One step gives momentum \<open>0.2\<close>, uncentered variance \<open>0.004\<close>, bias
  correction \<open>0.1\<close>, step size \<open>1\<close>, denominator correction \<open>sqrt 0.001\<close> (within \<open>1e-7\<close> of
  \<open>0.0316228\<close>), centered variance \<open>2.00000001\<close> and parameter \<open>180000001/200000001\<close>
  (within \<open>1e-9\<close> of \<open>0.9\<close>).
\<close>

theorem scalar_scenario:
  "bias_correction1 exact (beta1 ex_group) 1 = 1/10
   \<and> step_size exact (lr ex_group) (beta1 ex_group) 1 = 1
   \<and> denom_correction exact (beta2 ex_group) 1 = sqrt (1/1000)
   \<and> \<bar>denom_correction exact (beta2 ex_group) 1 - 316228/10000000\<bar> < 1/10000000
   \<and> centered_variance exact \<lparr>dtype_of = Float32, elems = [1/250]\<rparr>
        (denom_correction exact (beta2 ex_group) 1) (eps ex_group)
       = \<lparr>dtype_of = Float32, elems = [200000001/100000000]\<rparr>
   \<and> update_param exact ex_group (ex_param, None) =
       (None,
        ex_param\<lparr>data := \<lparr>dtype_of = Float32, elems = [180000001/200000001]\<rparr>\<rparr>,
        Some \<lparr>step = 1,
              exp_avg = \<lparr>dtype_of = Float32, elems = [1/5]\<rparr>,
              exp_avg_sq = \<lparr>dtype_of = Float32, elems = [1/250]\<rparr>,
              compensation = None\<rparr>)
   \<and> \<bar>180000001/200000001 - 9/10\<bar> < (1/1000000000 :: real)"
proof -
  have a: "bias_correction1 exact (beta1 ex_group) 1 = 1/10"
    by (simp add: bias_correction1_def ex_group_def)
  have b: "step_size exact (lr ex_group) (beta1 ex_group) 1 = 1"
    by (simp add: step_size_def bias_correction1_def ex_group_def)
  have c: "denom_correction exact (beta2 ex_group) 1 = sqrt (1/1000)"
    by (simp add: denom_correction_def ex_group_def)
  have d: "\<bar>denom_correction exact (beta2 ex_group) 1 - 316228/10000000\<bar> < 1/10000000"
    using sqrt_1000_bounds unfolding c by linarith
  have e: "centered_variance exact \<lparr>dtype_of = Float32, elems = [1/250]\<rparr>
        (denom_correction exact (beta2 ex_group) 1) (eps ex_group)
       = \<lparr>dtype_of = Float32, elems = [200000001/100000000]\<rparr>"
    unfolding c using sqrt_1000_pos
    by (simp add: centered_variance_def add_scalar_inplace_def tensor_div_def tensor_sqrt_def
        ex_group_def sqrt_250)
  have f: "update_param exact ex_group (ex_param, None) =
       (None,
        ex_param\<lparr>data := \<lparr>dtype_of = Float32, elems = [180000001/200000001]\<rparr>\<rparr>,
        Some \<lparr>step = 1,
              exp_avg = \<lparr>dtype_of = Float32, elems = [1/5]\<rparr>,
              exp_avg_sq = \<lparr>dtype_of = Float32, elems = [1/250]\<rparr>,
              compensation = None\<rparr>)"
    using sqrt_1000_pos
    by (simp add: update_param_dense ex_group_def ex_param_def ex_grad_def get_state_def
      init_state_def zeros_like_def map3_def step_size_def bias_correction1_def
      denom_correction_def centered_variance_def addcdiv_inplace_def add_inplace_def
      mul_inplace_def addcmul_inplace_def tensor_sqrt_def tensor_div_def
      add_scalar_inplace_def sqrt_250 float32_nat_exact)
  have g: "\<bar>180000001/200000001 - 9/10\<bar> < (1/1000000000 :: real)"
    by simp
  from a b c d e f g show ?thesis by blast
qed

lemmas ex_defs = ex_group_def ex_group_kahan_def ex_param_def ex_grad_def

lemmas eval_defs = get_state_def init_state_def zeros_like_def map3_def step_size_def
  bias_correction1_def denom_correction_def centered_variance_def addcdiv_inplace_def
  add_inplace_def mul_inplace_def addcmul_inplace_def tensor_sqrt_def tensor_div_def
  add_scalar_inplace_def sub_inplace_def clone_def sqrt_250 float32_nat_exact

lemma ex_update_kahan:
  "update_param exact ex_group_kahan (ex_param, None) =
     (None,
      ex_param\<lparr>data := \<lparr>dtype_of = Float32, elems = [180000001/200000001]\<rparr>\<rparr>,
      Some \<lparr>step = 1,
            exp_avg = \<lparr>dtype_of = Float32, elems = [1/5]\<rparr>,
            exp_avg_sq = \<lparr>dtype_of = Float32, elems = [1/250]\<rparr>,
            compensation = Some \<lparr>dtype_of = Float32, elems = [0]\<rparr>\<rparr>)"
  using sqrt_1000_pos
  by (simp add: update_param_dense ex_defs eval_defs)

lemma ex_update_direct:
  "update_param exact ex_group (ex_param, None) =
     (None,
      ex_param\<lparr>data := \<lparr>dtype_of = Float32, elems = [180000001/200000001]\<rparr>\<rparr>,
      Some \<lparr>step = 1,
            exp_avg = \<lparr>dtype_of = Float32, elems = [1/5]\<rparr>,
            exp_avg_sq = \<lparr>dtype_of = Float32, elems = [1/250]\<rparr>,
            compensation = None\<rparr>)"
  using sqrt_1000_pos
  by (simp add: update_param_dense ex_defs eval_defs)

lemma ex_param_grad: "ex_param\<lparr>grad := Some (Dense ex_grad)\<rparr> = ex_param"
  by (simp add: ex_param_def)

theorem moments_updated_then_read_witness:
  "(\<exists>s'. snd (snd (update_param exact ex_group (ex_param, None))) = Some s'
        \<and> elems (exp_avg s') = [1/5] \<and> elems (exp_avg_sq s') = [1/250])
   \<and> data (fst (snd (update_param exact ex_group (ex_param, None))))
       = \<lparr>dtype_of = Float32, elems = [180000001/200000001]\<rparr>
   \<and> data (fst (snd (update_param exact ex_group_kahan (ex_param, None))))
       = \<lparr>dtype_of = Float32, elems = [180000001/200000001]\<rparr>"
  using moments_updated_then_read
    [where R = exact and g = ex_group and p = ex_param and gr = ex_grad and st = None]
    moments_updated_then_read
    [where R = exact and g = ex_group_kahan and p = ex_param and gr = ex_grad and st = None]
  by (simp add: ex_param_grad ex_update_direct ex_update_kahan)

theorem kahan_apply_in_order_witness:
  "use_kahan_summation ex_group_kahan
   \<and> compensation (get_state ex_group_kahan (data ex_param) None)
       = Some \<lparr>dtype_of = Float32, elems = [0]\<rparr>
   \<and> (\<exists>s' c'. update_param exact ex_group_kahan (ex_param, None)
         = (None, fst (snd (update_param exact ex_group_kahan (ex_param, None))), Some s')
       \<and> compensation s' = Some c'
       \<and> (data (fst (snd (update_param exact ex_group_kahan (ex_param, None)))), c') =
         kahan_four_steps exact 1 \<lparr>dtype_of = Float32, elems = [1/5]\<rparr>
           \<lparr>dtype_of = Float32, elems = [200000001/100000000]\<rparr>
           (data ex_param, \<lparr>dtype_of = Float32, elems = [0]\<rparr>))"
proof -
  have h1: "use_kahan_summation ex_group_kahan"
    by (simp add: ex_defs)
  have h2: "compensation (get_state ex_group_kahan (data ex_param) None)
       = Some \<lparr>dtype_of = Float32, elems = [0]\<rparr>"
    by (simp add: ex_defs eval_defs)
  have ss: "step_size exact (lr ex_group_kahan) (beta1 ex_group_kahan) (Suc 0) = 1"
    by (simp add: ex_defs eval_defs)
  have cv: "centered_variance exact \<lparr>dtype_of = Float32, elems = [1/250]\<rparr>
        (denom_correction exact (beta2 ex_group_kahan) (Suc 0)) (eps ex_group_kahan)
       = \<lparr>dtype_of = Float32, elems = [200000001/100000000]\<rparr>"
    using sqrt_1000_pos by (simp add: ex_defs eval_defs)
  have wd: "weight_decay ex_group_kahan = 0"
    by (simp add: ex_defs)
  from kahan_apply_in_order[where R = exact and g = ex_group_kahan and p = ex_param
      and gr = ex_grad and st = None, OF h1 h2] h1 h2
  show ?thesis
    unfolding ex_param_grad
    by (simp add: ex_update_kahan ss cv wd)
qed



section \<open>The state a first call creates\<close>

text \<open>
  What the first call with a dense gradient leaves behind, for every rounding: no error, a
  state with counter \<open>1\<close>, moment buffers at the dtypes of the group computed from buffers
  of zeros, and a compensation buffer exactly when Kahan summation is on, at the
  compensation dtype and computed from a buffer of zeros.
\<close>

lemma first_call_state:
  fixes R :: rounding and g :: group and p :: param and gr :: tensor
  defines "n \<equiv> length (elems (data p))"
  defines "r \<equiv> update_param R g (p\<lparr>grad := Some (Dense gr)\<rparr>, None)"
  defines "pd1 \<equiv> (if weight_decay g \<noteq> 0
                    then mul_inplace R (data p) (1 - lr g * weight_decay g) else data p)"
  shows "fst r = None \<and>
     (\<exists>s'. snd (snd r) = Some s'
        \<and> step s' = 1
        \<and> dtype_of (exp_avg s') = momentum_dtype g
        \<and> elems (exp_avg s') =
            map2 (\<lambda>m x. R (momentum_dtype g)
                          (R (momentum_dtype g) (m * beta1 g) + (1 - beta1 g) * x))
              (replicate n 0) (elems gr)
        \<and> dtype_of (exp_avg_sq s') = variance_dtype g
        \<and> elems (exp_avg_sq s') =
            map2 (\<lambda>v x. R (variance_dtype g)
                          (R (variance_dtype g) (v * beta2 g) + (1 - beta2 g) * (x * x)))
              (replicate n 0) (elems gr)
        \<and> (compensation s' \<noteq> None) = use_kahan_summation g
        \<and> (\<forall>c'. compensation s' = Some c' \<longrightarrow>
              dtype_of c' = compensation_buffer_dtype g \<and>
              (data (fst (snd r)), c') =
                kahan_four_steps R (step_size R (lr g) (beta1 g) 1) (exp_avg s')
                  (centered_variance R (exp_avg_sq s')
                     (denom_correction R (beta2 g) 1) (eps g))
                  (pd1, \<lparr>dtype_of = compensation_buffer_dtype g, elems = replicate n 0\<rparr>)))"
proof -
  define s0 where "s0 = init_state g (data p)"
  define m where "m = add_inplace R (mul_inplace R (exp_avg s0) (beta1 g)) gr (1 - beta1 g)"
  define v where "v = addcmul_inplace R (mul_inplace R (exp_avg_sq s0) (beta2 g)) gr gr
      (1 - beta2 g)"
  define ss where "ss = step_size R (lr g) (beta1 g) 1"
  define cv where "cv = centered_variance R v (denom_correction R (beta2 g) 1) (eps g)"
  define c0 where "c0 = \<lparr>dtype_of = compensation_buffer_dtype g, elems = replicate n 0\<rparr>"
  define pin where "pin = p\<lparr>grad := Some (Dense gr)\<rparr>"
  have m: "dtype_of m = momentum_dtype g"
    "elems m = map2 (\<lambda>m x. R (momentum_dtype g)
                          (R (momentum_dtype g) (m * beta1 g) + (1 - beta1 g) * x))
              (replicate n 0) (elems gr)"
    by (simp_all add: m_def s0_def init_state_def n_def map2_map_left del: map_replicate)
  have v: "dtype_of v = variance_dtype g"
    "elems v = map2 (\<lambda>v x. R (variance_dtype g)
                          (R (variance_dtype g) (v * beta2 g) + (1 - beta2 g) * (x * x)))
              (replicate n 0) (elems gr)"
    by (simp_all add: v_def s0_def init_state_def n_def map3_same map2_map_left
        del: map_replicate)
  have rk: "r = (None, pin\<lparr>data := fst (kahan_four_steps R ss m cv (pd1, c0))\<rparr>,
      Some (s0\<lparr>step := 1, exp_avg := m, exp_avg_sq := v,
                compensation := Some (snd (kahan_four_steps R ss m cv (pd1, c0)))\<rparr>))"
    if "use_kahan_summation g"
    using that
    unfolding r_def pin_def pd1_def m_def v_def ss_def cv_def c0_def s0_def n_def
    by (simp add: update_param_dense get_state_def init_state_def zeros_like_def
        float32_nat_exact kahan_four_steps_def kahan_snapshot_def Let_def
        addcdiv_is_decrement add_is_increment add_sub_clone_is_recover)
  have rd: "r = (None, pin\<lparr>data := addcdiv_inplace R pd1 m cv (- ss)\<rparr>,
      Some (s0\<lparr>step := 1, exp_avg := m, exp_avg_sq := v\<rparr>))"
    if "\<not> use_kahan_summation g"
    using that
    unfolding r_def pin_def pd1_def m_def v_def ss_def cv_def s0_def
    by (simp add: update_param_dense get_state_def init_state_def float32_nat_exact)
  have dk: "dtype_of (snd (kahan_four_steps R ss m cv (pd1, c0))) = compensation_buffer_dtype g"
    by (simp add: kahan_four_steps_def Let_def kahan_recover_def kahan_decrement_def c0_def)
  have s0c: "\<not> use_kahan_summation g \<Longrightarrow> compensation s0 = None"
    by (simp add: s0_def init_state_def)
  show ?thesis
  proof (cases "use_kahan_summation g")
    case True
    from rk[OF True] m v dk True show ?thesis
      by (simp add: ss_def cv_def c0_def)
  next
    case False
    from rd[OF False] m v s0c[OF False] False show ?thesis
      by simp
  qed
qed

lemma ex_update_mixed:
  "update_param exact ex_group_mixed (ex_param, None) =
     (None,
      ex_param\<lparr>data := \<lparr>dtype_of = Float32, elems = [180000001/200000001]\<rparr>\<rparr>,
      Some \<lparr>step = 1,
            exp_avg = \<lparr>dtype_of = BFloat16, elems = [1/5]\<rparr>,
            exp_avg_sq = \<lparr>dtype_of = Float16, elems = [1/250]\<rparr>,
            compensation = Some \<lparr>dtype_of = Float64, elems = [0]\<rparr>\<rparr>)"
  using sqrt_1000_pos
  by (simp add: update_param_dense ex_group_mixed_def ex_defs eval_defs)


text \<open>
  Claim C8. The first call with a dense gradient behaves as a call on the freshly created
  state: counter zero (before the increment), momentum and uncentered variance zero-filled
  in the shape of the parameter at the momentum and variance dtypes of the group, and a
  zero-filled compensation buffer at the compensation dtype exactly when Kahan summation
  is on. After that call the parameter has a state. A call with an absent or a sparse
  gradient creates none, and over a run of calls with dense or absent gradients the state
  exists at the end if and only if some call had a gradient.
  The created state is also read off the state the first call leaves, for every rounding:
  the call raises nothing, the counter is \<open>1\<close> (zero, incremented once), the moment buffers
  are at the momentum and variance dtypes and are the moment updates of buffers of zeros
  in the shape of the parameter, and a compensation buffer is there if and only if Kahan
  summation is on; it is then at the compensation dtype, and it and the parameter are
  what the four operations of the compensated apply make of a buffer of zeros.
\<close>

theorem state_created_on_first_gradient:
  fixes R :: rounding and g :: group and p :: param and gr :: tensor and d :: dtype
    and ivs :: "(nat \<times> real) list" and grs :: "gradient option list"
  defines "n \<equiv> length (elems (data p))"
  defines "r \<equiv> update_param R g (p\<lparr>grad := Some (Dense gr)\<rparr>, None)"
  defines "pd1 \<equiv> (if weight_decay g \<noteq> 0
                    then mul_inplace R (data p) (1 - lr g * weight_decay g) else data p)"
  shows "r = update_param R g (p\<lparr>grad := Some (Dense gr)\<rparr>, Some (init_state g (data p)))
   \<and> step (init_state g (data p)) = 0
   \<and> exp_avg (init_state g (data p)) =
       \<lparr>dtype_of = momentum_dtype g, elems = replicate n 0\<rparr>
   \<and> exp_avg_sq (init_state g (data p)) =
       \<lparr>dtype_of = variance_dtype g, elems = replicate n 0\<rparr>
   \<and> compensation (init_state g (data p)) =
       (if use_kahan_summation g
        then Some \<lparr>dtype_of = compensation_buffer_dtype g, elems = replicate n 0\<rparr>
        else None)
   \<and> snd (snd r) \<noteq> None
   \<and> snd (snd (update_param R g (p\<lparr>grad := None\<rparr>, None))) = None
   \<and> snd (snd (update_param R g (p\<lparr>grad := Some (Sparse d ivs)\<rparr>, None))) = None
   \<and> ((\<forall>x\<in>set grs. \<forall>y. x = Some y \<longrightarrow> \<not> is_sparse y) \<longrightarrow>
        (snd (snd (run_calls R g grs (p, None))) \<noteq> None) = (\<exists>x\<in>set grs. x \<noteq> None))
   \<and> fst r = None
   \<and> (\<exists>s'. snd (snd r) = Some s'
        \<and> step s' = 1
        \<and> dtype_of (exp_avg s') = momentum_dtype g
        \<and> elems (exp_avg s') =
            map2 (\<lambda>m x. R (momentum_dtype g)
                          (R (momentum_dtype g) (m * beta1 g) + (1 - beta1 g) * x))
              (replicate n 0) (elems gr)
        \<and> dtype_of (exp_avg_sq s') = variance_dtype g
        \<and> elems (exp_avg_sq s') =
            map2 (\<lambda>v x. R (variance_dtype g)
                          (R (variance_dtype g) (v * beta2 g) + (1 - beta2 g) * (x * x)))
              (replicate n 0) (elems gr)
        \<and> (compensation s' \<noteq> None) = use_kahan_summation g
        \<and> (\<forall>c'. compensation s' = Some c' \<longrightarrow>
              dtype_of c' = compensation_buffer_dtype g \<and>
              (data (fst (snd r)), c') =
                kahan_four_steps R (step_size R (lr g) (beta1 g) 1) (exp_avg s')
                  (centered_variance R (exp_avg_sq s')
                     (denom_correction R (beta2 g) 1) (eps g))
                  (pd1, \<lparr>dtype_of = compensation_buffer_dtype g, elems = replicate n 0\<rparr>)))"
proof -
  have a: "r = update_param R g (p\<lparr>grad := Some (Dense gr)\<rparr>, Some (init_state g (data p)))"
    by (simp add: r_def update_param_def get_state_def)
  have i1: "step (init_state g (data p)) = 0"
    by (simp add: init_state_def)
  have i2: "exp_avg (init_state g (data p)) =
       \<lparr>dtype_of = momentum_dtype g, elems = replicate n 0\<rparr>"
    by (simp add: init_state_def zeros_like_def n_def)
  have i3: "exp_avg_sq (init_state g (data p)) =
       \<lparr>dtype_of = variance_dtype g, elems = replicate n 0\<rparr>"
    by (simp add: init_state_def zeros_like_def n_def)
  have i4: "compensation (init_state g (data p)) =
       (if use_kahan_summation g
        then Some \<lparr>dtype_of = compensation_buffer_dtype g, elems = replicate n 0\<rparr>
        else None)"
    by (simp add: init_state_def zeros_like_def n_def)
  have b: "snd (snd r) \<noteq> None"
    by (simp add: r_def update_param_dense split: option.splits)
  have ab: "snd (snd (update_param R g (p\<lparr>grad := None\<rparr>, None))) = None"
    by (simp add: update_param_absent)
  have sp: "snd (snd (update_param R g (p\<lparr>grad := Some (Sparse d ivs)\<rparr>, None))) = None"
    by (simp add: update_param_sparse)
  have c: "(\<forall>x\<in>set grs. \<forall>y. x = Some y \<longrightarrow> \<not> is_sparse y) \<longrightarrow>
        (snd (snd (run_calls R g grs (p, None))) \<noteq> None) = (\<exists>x\<in>set grs. x \<noteq> None)"
  proof
    assume h: "\<forall>x\<in>set grs. \<forall>y. x = Some y \<longrightarrow> \<not> is_sparse y"
    show "(snd (snd (run_calls R g grs (p, None))) \<noteq> None) = (\<exists>x\<in>set grs. x \<noteq> None)"
    proof (cases "\<forall>x\<in>set grs. x = None")
      case True
      from run_calls_absent[OF True, of R g p None] True show ?thesis by auto
    next
      case False
      then have "filter (\<lambda>x. x \<noteq> None) grs \<noteq> []" by (simp add: filter_empty_conv)
      then have pos: "0 < length (filter (\<lambda>x. x \<noteq> None) grs)" by simp
      have k: "kahan_ready g None" by (simp add: kahan_ready_def)
      have k0: "step_of None \<le> 16777216" by (simp add: step_of_def)
      from run_calls_steps[OF h k k0, of R p]
      obtain p' st' where r: "run_calls R g grs (p, None) = (None, p', st')"
        and n: "step_of st' =
          min (step_of None + length (filter (\<lambda>x. x \<noteq> None) grs)) 16777216"
        by blast
      from pos have "0 < min (length (filter (\<lambda>x. x \<noteq> None) grs)) (16777216 :: nat)"
        by simp
      with n have "0 < step_of st'" by (simp add: step_of_def)
      then have "st' \<noteq> None" by (cases st') (simp_all add: step_of_def)
      with r False show ?thesis by simp
    qed
  qed
  note f = first_call_state[where R = R and g = g and p = p and gr = gr,
      folded n_def r_def pd1_def]
  from a i1 i2 i3 i4 b ab sp c f[THEN conjunct1] f[THEN conjunct2] show ?thesis
    by (intro conjI)
qed

theorem state_created_on_first_gradient_witness:
  "list_all (\<lambda>x. x = None \<or> x = Some (Dense ex_grad)) [None, Some (Dense ex_grad)]
   \<and> (\<exists>x\<in>set [None, Some (Dense ex_grad)]. x \<noteq> None)
   \<and> snd (snd (run_calls exact ex_group_mixed [None, Some (Dense ex_grad)] (ex_param, None)))
       \<noteq> None
   \<and> use_kahan_summation ex_group_mixed
   \<and> momentum_dtype ex_group_mixed = BFloat16
   \<and> variance_dtype ex_group_mixed = Float16
   \<and> compensation_buffer_dtype ex_group_mixed = Float64
   \<and> fst (update_param exact ex_group_mixed (ex_param, None)) = None
   \<and> (\<exists>s' c'. snd (snd (update_param exact ex_group_mixed (ex_param, None))) = Some s'
         \<and> step s' = 1
         \<and> exp_avg s' = \<lparr>dtype_of = BFloat16, elems = [1/5]\<rparr>
         \<and> exp_avg_sq s' = \<lparr>dtype_of = Float16, elems = [1/250]\<rparr>
         \<and> compensation s' = Some c' \<and> dtype_of c' = Float64)"
  using state_created_on_first_gradient
    [where R = exact and g = ex_group_mixed and p = ex_param and gr = ex_grad and d = Float32
       and ivs = "[]" and grs = "[None, Some (Dense ex_grad)]"]
  by (simp add: ex_param_grad ex_update_mixed)



section \<open>Step size, weight decay and the two apply modes under exact arithmetic\<close>

lemma map3_map_third: "map3 f xs ys (map h zs) = map3 (\<lambda>a b c. f a b (h c)) xs ys zs"
  by (simp add: map3_def zip_map2 case_prod_unfold)

lemma step_size_exact: "step_size exact l b1 t = l / (1 - b1 ^ t)"
  by (simp add: step_size_def bias_correction1_def)

lemma denom_correction_exact: "denom_correction exact b2 t = sqrt (1 - b2 ^ t)"
  by (simp add: denom_correction_def)

lemma centered_variance_elems:
  "elems (centered_variance R v dc e) =
     map (\<lambda>x. R (dtype_of v) (R (dtype_of v) (R (dtype_of v) (sqrt x) / dc) + e)) (elems v)"
  by (simp add: centered_variance_def)

text \<open>
  Claim C3. Under exact arithmetic the scalar step size at counter \<open>t\<close> is
  \<open>lr / (1 - beta1 ^ t)\<close>, the denominator correction is \<open>sqrt (1 - beta2 ^ t)\<close> and the centered
  variance is, elementwise, \<open>sqrt v / sqrt (1 - beta2 ^ t) + eps\<close>. For every rounding the
  scalar \<open>eps\<close> is added to every element last, after the root and the normalization. A
  call with a dense gradient runs at the incremented counter \<open>t \<ge> 1\<close>, and without Kahan
  summation its parameter is the decayed parameter minus step size times updated momentum
  over centered variance, with exactly these quantities.
\<close>

theorem step_size_and_centered_variance:
  fixes R :: rounding and g :: group and p :: param and st :: "pstate option" and gr :: tensor
  defines "r \<equiv> update_param exact g (p\<lparr>grad := Some (Dense gr)\<rparr>, st)"
  defines "pd1 \<equiv> (if weight_decay g \<noteq> 0
                    then map (\<lambda>a. a * (1 - lr g * weight_decay g)) (elems (data p))
                    else elems (data p))"
  shows "step_size exact l b1 t = l / (1 - b1 ^ t)
   \<and> denom_correction exact b2 t = sqrt (1 - b2 ^ t)
   \<and> elems (centered_variance exact v (denom_correction exact b2 t) e) =
       map (\<lambda>x. sqrt x / sqrt (1 - b2 ^ t) + e) (elems v)
   \<and> elems (centered_variance R v dc e) =
       map (\<lambda>x. R (dtype_of v) (R (dtype_of v) (R (dtype_of v) (sqrt x) / dc) + e)) (elems v)
   \<and> (\<exists>s'. snd (snd r) = Some s' \<and> step s' = float32_nat (step_of st + 1) \<and> 1 \<le> step s' \<and>
        (\<not> use_kahan_summation g \<longrightarrow>
           elems (data (fst (snd r))) =
             map3 (\<lambda>a m v. a - lr g / (1 - beta1 g ^ step s')
                                 * (m / (sqrt v / sqrt (1 - beta2 g ^ step s') + eps g)))
               pd1 (elems (exp_avg s')) (elems (exp_avg_sq s'))))"
proof -
  have pos: "Suc 0 \<le> float32_nat (Suc (step_of st))"
    using float32_nat_pos[of "Suc (step_of st)"] by simp
  have e: "\<exists>s'. snd (snd r) = Some s' \<and> step s' = float32_nat (step_of st + 1) \<and> 1 \<le> step s' \<and>
        (\<not> use_kahan_summation g \<longrightarrow>
           elems (data (fst (snd r))) =
             map3 (\<lambda>a m v. a - lr g / (1 - beta1 g ^ step s')
                                 * (m / (sqrt v / sqrt (1 - beta2 g ^ step s') + eps g)))
               pd1 (elems (exp_avg s')) (elems (exp_avg_sq s')))"
    unfolding r_def pd1_def
    using pos
    by (simp add: update_param_dense step_size_exact denom_correction_exact
        centered_variance_elems step_get_state map3_map_third split: option.splits)
  with step_size_exact[of l b1 t] denom_correction_exact[of b2 t]
    centered_variance_elems[of R v dc e]
    centered_variance_elems[of exact v "sqrt (1 - b2 ^ t)" e]
  show ?thesis by (simp add: denom_correction_exact)
qed

text \<open>
  Claim C7. With a dense gradient and \<open>weight_decay \<noteq> 0\<close>, the call is the call without
  weight decay on the parameter multiplied elementwise by \<open>1 - lr * weight_decay\<close>
  (rounded to the dtype of the parameter): the decay comes first, whatever the gradient
  holds. With \<open>weight_decay = 0\<close> no multiplication takes place: the apply phase reads the
  parameter as it was passed in. In particular, under exact arithmetic, on a fresh
  parameter and with a gradient of zeros (and \<open>eps > 0\<close>, betas in \<open>[0, 1)\<close>), the parameter
  after the call is the parameter before times \<open>1 - lr * weight_decay\<close>.
\<close>

theorem weight_decay_before_update:
  fixes R :: rounding and g :: group and p :: param and st :: "pstate option" and gr :: tensor
  defines "r \<equiv> update_param R g (p\<lparr>grad := Some (Dense gr)\<rparr>, st)"
  defines "s0 \<equiv> get_state g (data p) st"
  shows "(weight_decay g \<noteq> 0 \<longrightarrow>
           r = update_param R (g\<lparr>weight_decay := 0\<rparr>)
                 (p\<lparr>grad := Some (Dense gr),
                    data := (data p)\<lparr>elems :=
                      map (\<lambda>a. R (dtype_of (data p)) (a * (1 - lr g * weight_decay g)))
                        (elems (data p))\<rparr>\<rparr>, st))
   \<and> (weight_decay g = 0 \<longrightarrow>
        (\<exists>s'. snd (snd r) = Some s' \<and>
           (\<not> use_kahan_summation g \<longrightarrow>
              data (fst (snd r)) =
                addcdiv_inplace R (data p) (exp_avg s')
                  (centered_variance R (exp_avg_sq s')
                     (denom_correction R (beta2 g) (step s')) (eps g))
                  (- step_size R (lr g) (beta1 g) (step s'))) \<and>
           (\<forall>c. use_kahan_summation g \<and> compensation s0 = Some c \<longrightarrow>
              data (fst (snd r)) =
                add_inplace R (data p)
                  (addcdiv_inplace R c (exp_avg s')
                     (centered_variance R (exp_avg_sq s')
                        (denom_correction R (beta2 g) (step s')) (eps g))
                     (- step_size R (lr g) (beta1 g) (step s'))) 1)))
   \<and> (R = exact \<and> st = None \<and> elems gr = replicate (length (elems (data p))) 0
        \<and> 0 < eps g \<and> 0 \<le> beta1 g \<and> beta1 g < 1 \<and> 0 \<le> beta2 g \<and> beta2 g < 1 \<longrightarrow>
        fst r = None \<and>
        elems (data (fst (snd r))) =
          map (\<lambda>a. a * (1 - lr g * weight_decay g)) (elems (data p)))"
proof -
  have a: "r = update_param R (g\<lparr>weight_decay := 0\<rparr>)
                 (p\<lparr>grad := Some (Dense gr),
                    data := (data p)\<lparr>elems :=
                      map (\<lambda>a. R (dtype_of (data p)) (a * (1 - lr g * weight_decay g)))
                        (elems (data p))\<rparr>\<rparr>, st)"
    if "weight_decay g \<noteq> 0"
    using that unfolding r_def
    by (simp add: update_param_dense mul_inplace_def get_state_def init_state_def zeros_like_def
        split: option.splits)
  have b: "\<exists>s'. snd (snd r) = Some s' \<and>
           (\<not> use_kahan_summation g \<longrightarrow>
              data (fst (snd r)) =
                addcdiv_inplace R (data p) (exp_avg s')
                  (centered_variance R (exp_avg_sq s')
                     (denom_correction R (beta2 g) (step s')) (eps g))
                  (- step_size R (lr g) (beta1 g) (step s'))) \<and>
           (\<forall>c. use_kahan_summation g \<and> compensation s0 = Some c \<longrightarrow>
              data (fst (snd r)) =
                add_inplace R (data p)
                  (addcdiv_inplace R c (exp_avg s')
                     (centered_variance R (exp_avg_sq s')
                        (denom_correction R (beta2 g) (step s')) (eps g))
                     (- step_size R (lr g) (beta1 g) (step s'))) 1)"
    if "weight_decay g = 0"
    using that unfolding r_def s0_def
    by (auto simp: update_param_dense split: option.splits)
  have c: "fst r = None \<and>
        elems (data (fst (snd r))) =
          map (\<lambda>a. a * (1 - lr g * weight_decay g)) (elems (data p))"
    if "R = exact" "st = None" "elems gr = replicate (length (elems (data p))) 0"
    using that unfolding r_def
    by (simp add: update_param_dense get_state_def init_state_def map3_def
        centered_variance_elems zip_replicate2 comp_def)
  from a b c show ?thesis by blast
qed

lemma kahan_exact_param:
  assumes "length ps = n" "length ms = n" "length vs = n"
  shows "map2 (\<lambda>a b. a + b) ps (map3 (\<lambda>a b c. a - k * b / c) (replicate n 0) ms vs)
         = map3 (\<lambda>a b c. a - k * b / c) ps ms (vs :: real list)"
  using assms by (intro nth_equalityI) (simp_all add: length_map3 nth_map3)

lemma kahan_exact_comp:
  assumes "length ps = n" "length cs = n"
  shows "map2 (\<lambda>a b. a + b) cs (map2 (\<lambda>a b. a - b) ps (map2 (\<lambda>a b. a + b) ps cs))
         = replicate n (0 :: real)"
  using assms by (intro nth_equalityI) simp_all

lemma exact_twins_None [simp]: "exact_twins n None None"
  by (simp add: exact_twins_def)

lemma exact_twins_same:
  "exact_twins n (Some s) (Some s) =
     (length (elems (exp_avg s)) = n \<and> length (elems (exp_avg_sq s)) = n \<and>
      (\<exists>c. compensation s = Some c \<and> elems c = replicate n 0))"
  by (auto simp: exact_twins_def split: option.splits)

lemma kahan_direct_step:
  fixes g :: group and p :: param and stk std :: "pstate option" and gr :: tensor
  defines "n \<equiv> length (elems (data p))"
  defines "rk \<equiv> update_param exact (g\<lparr>use_kahan_summation := True\<rparr>)
                   (p\<lparr>grad := Some (Dense gr)\<rparr>, stk)"
  defines "rd \<equiv> update_param exact (g\<lparr>use_kahan_summation := False\<rparr>)
                   (p\<lparr>grad := Some (Dense gr)\<rparr>, std)"
  assumes shape: "length (elems gr) = n"
    and start: "exact_twins n stk std"
  shows "\<exists>p' sk' sd'. rk = (None, p', Some sk') \<and> rd = (None, p', Some sd')
     \<and> length (elems (data p')) = n \<and> exact_twins n (Some sk') (Some sd')"
proof -
  define gk where "gk = g\<lparr>use_kahan_summation := True\<rparr>"
  define gd where "gd = g\<lparr>use_kahan_summation := False\<rparr>"
  define sk where "sk = get_state gk (data p) stk"
  define sd where "sd = get_state gd (data p) std"
  from start obtain c where c: "compensation sk = Some c" "elems c = replicate n 0"
    and lens: "length (elems (exp_avg sk)) = n" "length (elems (exp_avg_sq sk)) = n"
    and same: "exp_avg sd = exp_avg sk" "exp_avg_sq sd = exp_avg_sq sk" "step sd = step sk"
    by (auto simp: sk_def sd_def gk_def gd_def get_state_def init_state_def n_def zeros_like_def
        exact_twins_def split: option.splits)
  define pin where "pin = p\<lparr>grad := Some (Dense gr)\<rparr>"
  define pd1 where "pd1 = (if weight_decay g \<noteq> 0
      then mul_inplace exact (data p) (1 - lr g * weight_decay g) else data p)"
  define m where "m = add_inplace exact (mul_inplace exact (exp_avg sk) (beta1 g)) gr (1 - beta1 g)"
  define v where "v = addcmul_inplace exact (mul_inplace exact (exp_avg_sq sk) (beta2 g)) gr gr
      (1 - beta2 g)"
  define t where "t = float32_nat (step sk + 1)"
  define ss where "ss = step_size exact (lr g) (beta1 g) t"
  define cv where "cv = centered_variance exact v (denom_correction exact (beta2 g) t) (eps g)"
  define c1 where "c1 = addcdiv_inplace exact c m cv (- ss)"
  define pdk where "pdk = add_inplace exact pd1 c1 1"
  define c2 where "c2 = add_inplace exact c1 (sub_inplace exact (clone pd1) pdk) 1"
  define pdd where "pdd = addcdiv_inplace exact pd1 m cv (- ss)"
  have rk: "rk = (None, pin\<lparr>data := pdk\<rparr>,
      Some (sk\<lparr>step := t, exp_avg := m, exp_avg_sq := v, compensation := Some c2\<rparr>))"
    using c(1)
    unfolding rk_def pin_def pd1_def m_def v_def t_def ss_def cv_def c1_def pdk_def c2_def
      sk_def gk_def
    by (simp add: update_param_dense)
  have rd: "rd = (None, pin\<lparr>data := pdd\<rparr>,
      Some (sd\<lparr>step := t, exp_avg := m, exp_avg_sq := v\<rparr>))"
    using same
    unfolding rd_def pin_def pd1_def m_def v_def t_def ss_def cv_def pdd_def
      sk_def sd_def gk_def gd_def
    by (simp add: update_param_dense)
  have l1: "length (elems pd1) = n"
    by (simp add: pd1_def n_def)
  have l2: "length (elems m) = n"
    using lens shape by (simp add: m_def)
  have l3: "length (elems cv) = n"
    using lens shape by (simp add: cv_def v_def centered_variance_elems length_map3)
  have l5: "length (elems v) = n"
    using lens shape by (simp add: v_def length_map3)
  have e1: "elems c1 = map3 (\<lambda>a b c. a - ss * b / c) (replicate n 0) (elems m) (elems cv)"
    by (simp add: c1_def c(2))
  have l4: "length (elems c1) = n"
    using l2 l3 by (simp add: e1 length_map3)
  have e2: "elems pdk = map2 (\<lambda>a b. a + b) (elems pd1) (elems c1)"
    by (simp add: pdk_def)
  have e3: "elems pdd = map3 (\<lambda>a b c. a - ss * b / c) (elems pd1) (elems m) (elems cv)"
    by (simp add: pdd_def)
  have "elems pdk = elems pdd"
    unfolding e2 e3 e1 by (rule kahan_exact_param[OF l1 l2 l3])
  moreover have "dtype_of pdk = dtype_of pdd"
    by (simp add: pdk_def pdd_def)
  ultimately have pd: "pdk = pdd" by simp
  have l6: "length (elems pdd) = n"
    using l1 l2 l3 by (simp add: e3 length_map3)
  have "elems c2 = map2 (\<lambda>a b. a + b) (elems c1)
      (map2 (\<lambda>a b. a - b) (elems pd1) (map2 (\<lambda>a b. a + b) (elems pd1) (elems c1)))"
    by (simp add: c2_def e2)
  then have z: "elems c2 = replicate n 0"
    by (simp only: kahan_exact_comp[OF l1 l4])
  from rk rd pd z l2 l5 l6 show ?thesis
    by (simp add: exact_twins_def)
qed

lemma kahan_direct_run:
  assumes "\<forall>x\<in>set grs. x = None \<or> (\<exists>t. x = Some (Dense t) \<and> length (elems t) = n)"
    and "length (elems (data p)) = n" and "exact_twins n stk std"
  shows "\<exists>p' stk' std'.
      run_calls exact (g\<lparr>use_kahan_summation := True\<rparr>) grs (p, stk) = (None, p', stk') \<and>
      run_calls exact (g\<lparr>use_kahan_summation := False\<rparr>) grs (p, std) = (None, p', std') \<and>
      length (elems (data p')) = n \<and> exact_twins n stk' std'"
  using assms
proof (induction grs arbitrary: p stk std)
  case Nil
  then show ?case by simp
next
  case (Cons x grs)
  from Cons.prems(1) have rest:
    "\<forall>x\<in>set grs. x = None \<or> (\<exists>t. x = Some (Dense t) \<and> length (elems t) = n)"
    by simp
  from Cons.prems(1) consider "x = None"
    | t where "x = Some (Dense t)" "length (elems t) = n"
    by auto
  then show ?case
  proof cases
    case 1
    have len: "length (elems (data (p\<lparr>grad := None\<rparr>))) = n"
      using Cons.prems(2) by simp
    from Cons.IH[OF rest len Cons.prems(3)] 1 show ?thesis
      by (simp add: update_param_absent del: exact_apply)
  next
    case 2
    from kahan_direct_step[of t p stk std g] 2(2) Cons.prems(2,3)
    obtain p1 sk1 sd1 where
      k: "update_param exact (g\<lparr>use_kahan_summation := True\<rparr>)
            (p\<lparr>grad := Some (Dense t)\<rparr>, stk) = (None, p1, Some sk1)"
      and d: "update_param exact (g\<lparr>use_kahan_summation := False\<rparr>)
            (p\<lparr>grad := Some (Dense t)\<rparr>, std) = (None, p1, Some sd1)"
      and len: "length (elems (data p1)) = n"
      and tw: "exact_twins n (Some sk1) (Some sd1)"
      by auto
    from Cons.IH[OF rest len tw] k d 2(1) show ?thesis
      by (simp del: exact_apply)
  qed
qed

lemma kahan_exact_param_from:
  assumes "length ps = n" "length cs = n" "length ms = n" "length vs = n"
  shows "map2 (\<lambda>a b. a + b) ps (map3 (\<lambda>a b c. a - k * b / c) cs ms vs)
         = map2 (\<lambda>a b. a + b) (map3 (\<lambda>a b c. a - k * b / c) ps ms (vs :: real list)) cs"
  using assms by (intro nth_equalityI) (simp_all add: length_map3 nth_map3)

lemma kahan_step_from_any_compensation:
  fixes g :: group and p :: param and s :: pstate and gr :: tensor and c :: tensor
  defines "n \<equiv> length (elems (data p))"
  defines "rk \<equiv> update_param exact (g\<lparr>use_kahan_summation := True\<rparr>)
                   (p\<lparr>grad := Some (Dense gr)\<rparr>, Some s)"
  defines "rd \<equiv> update_param exact (g\<lparr>use_kahan_summation := False\<rparr>)
                   (p\<lparr>grad := Some (Dense gr)\<rparr>, Some s)"
  assumes shape: "length (elems gr) = n"
    and lens: "length (elems (exp_avg s)) = n" "length (elems (exp_avg_sq s)) = n"
    and comp: "compensation s = Some c" and lc: "length (elems c) = n"
  shows "\<exists>pk pd sk sd ck. rk = (None, pk, Some sk) \<and> rd = (None, pd, Some sd)
     \<and> elems (data pk) = map2 (\<lambda>a b. a + b) (elems (data pd)) (elems c)
     \<and> dtype_of (data pk) = dtype_of (data pd) \<and> grad pk = grad pd
     \<and> step sk = step sd \<and> exp_avg sk = exp_avg sd \<and> exp_avg_sq sk = exp_avg_sq sd
     \<and> compensation sk = Some ck \<and> elems ck = replicate n 0 \<and> compensation sd = Some c"
proof -
  define pin where "pin = p\<lparr>grad := Some (Dense gr)\<rparr>"
  define pd1 where "pd1 = (if weight_decay g \<noteq> 0
      then mul_inplace exact (data p) (1 - lr g * weight_decay g) else data p)"
  define m where "m = add_inplace exact (mul_inplace exact (exp_avg s) (beta1 g)) gr (1 - beta1 g)"
  define v where "v = addcmul_inplace exact (mul_inplace exact (exp_avg_sq s) (beta2 g)) gr gr
      (1 - beta2 g)"
  define t where "t = float32_nat (step s + 1)"
  define ss where "ss = step_size exact (lr g) (beta1 g) t"
  define cv where "cv = centered_variance exact v (denom_correction exact (beta2 g) t) (eps g)"
  define c1 where "c1 = addcdiv_inplace exact c m cv (- ss)"
  define pdk where "pdk = add_inplace exact pd1 c1 1"
  define c2 where "c2 = add_inplace exact c1 (sub_inplace exact (clone pd1) pdk) 1"
  define pdd where "pdd = addcdiv_inplace exact pd1 m cv (- ss)"
  have rk: "rk = (None, pin\<lparr>data := pdk\<rparr>,
      Some (s\<lparr>step := t, exp_avg := m, exp_avg_sq := v, compensation := Some c2\<rparr>))"
    using comp
    unfolding rk_def pin_def pd1_def m_def v_def t_def ss_def cv_def c1_def pdk_def c2_def
    by (simp add: update_param_dense get_state_def)
  have rd: "rd = (None, pin\<lparr>data := pdd\<rparr>,
      Some (s\<lparr>step := t, exp_avg := m, exp_avg_sq := v\<rparr>))"
    unfolding rd_def pin_def pd1_def m_def v_def t_def ss_def cv_def pdd_def
    by (simp add: update_param_dense get_state_def)
  have l1: "length (elems pd1) = n"
    by (simp add: pd1_def n_def)
  have l2: "length (elems m) = n"
    using lens shape by (simp add: m_def)
  have l3: "length (elems cv) = n"
    using lens shape by (simp add: cv_def v_def centered_variance_elems length_map3)
  have e1: "elems c1 = map3 (\<lambda>a b c. a - ss * b / c) (elems c) (elems m) (elems cv)"
    by (simp add: c1_def)
  have l4: "length (elems c1) = n"
    using l2 l3 lc by (simp add: e1 length_map3)
  have e2: "elems pdk = map2 (\<lambda>a b. a + b) (elems pd1) (elems c1)"
    by (simp add: pdk_def)
  have e3: "elems pdd = map3 (\<lambda>a b c. a - ss * b / c) (elems pd1) (elems m) (elems cv)"
    by (simp add: pdd_def)
  have pd: "elems pdk = map2 (\<lambda>a b. a + b) (elems pdd) (elems c)"
    unfolding e2 e3 e1 by (rule kahan_exact_param_from[OF l1 lc l2 l3])
  have dt: "dtype_of pdk = dtype_of pdd"
    by (simp add: pdk_def pdd_def)
  have "elems c2 = map2 (\<lambda>a b. a + b) (elems c1)
      (map2 (\<lambda>a b. a - b) (elems pd1) (map2 (\<lambda>a b. a + b) (elems pd1) (elems c1)))"
    by (simp add: c2_def e2)
  then have z: "elems c2 = replicate n 0"
    by (simp only: kahan_exact_comp[OF l1 l4])
  from rk rd pd dt z comp show ?thesis
    by (simp add: pin_def)
qed

lemma sqrt_1999: "sqrt (1999/250000) = 2 * sqrt (1999/1000000)"
proof -
  have "sqrt (1999/250000) = sqrt (4 * (1999/1000000))" by simp
  also have "\<dots> = sqrt 4 * sqrt (1999/1000000)" by (simp only: real_sqrt_mult)
  also have "\<dots> = 2 * sqrt (1999/1000000)" by simp
  finally show ?thesis .
qed

lemma sqrt_1999_pos: "0 < sqrt (1999/1000000)"
  by simp

lemma ex_update_kahan_compensated:
  "update_param exact ex_group_kahan (ex_param, Some ex_state_compensated) =
     (None,
      ex_param\<lparr>data := \<lparr>dtype_of = Float32, elems = [380000002/200000001]\<rparr>\<rparr>,
      Some \<lparr>step = 2,
            exp_avg = \<lparr>dtype_of = Float32, elems = [19/50]\<rparr>,
            exp_avg_sq = \<lparr>dtype_of = Float32, elems = [1999/250000]\<rparr>,
            compensation = Some \<lparr>dtype_of = Float32, elems = [0]\<rparr>\<rparr>)"
  using sqrt_1999_pos
  by (simp add: update_param_dense ex_defs ex_state_compensated_def ex_state_def eval_defs
      sqrt_1999 power2_eq_square)

lemma ex_update_direct_compensated:
  "update_param exact ex_group (ex_param, Some ex_state_compensated) =
     (None,
      ex_param\<lparr>data := \<lparr>dtype_of = Float32, elems = [180000001/200000001]\<rparr>\<rparr>,
      Some \<lparr>step = 2,
            exp_avg = \<lparr>dtype_of = Float32, elems = [19/50]\<rparr>,
            exp_avg_sq = \<lparr>dtype_of = Float32, elems = [1999/250000]\<rparr>,
            compensation = Some \<lparr>dtype_of = Float32, elems = [1]\<rparr>\<rparr>)"
  using sqrt_1999_pos
  by (simp add: update_param_dense ex_defs ex_state_compensated_def ex_state_def eval_defs
      sqrt_1999 power2_eq_square)


text \<open>
  Claim C9, as stated, fails from a starting state whose compensation buffer is not zero.
  For the scalar parameter \<open>1.0\<close> with gradient \<open>2.0\<close> and the state one step leaves
  (counter \<open>1\<close>, momentum \<open>0.2\<close>, variance \<open>0.004\<close>) but with compensation \<open>1.0\<close>, the call
  with Kahan summation leaves, under exact arithmetic, the parameter
  \<open>380000002/200000001\<close> (about \<open>1.9\<close>), and the call without it, from the same state,
  leaves \<open>180000001/200000001\<close> (about \<open>0.9\<close>).
\<close>

theorem kahan_differs_from_nonzero_compensation:
  "compensation ex_state_compensated = Some \<lparr>dtype_of = Float32, elems = [1]\<rparr>
   \<and> ex_group_kahan = ex_group\<lparr>use_kahan_summation := True\<rparr>
   \<and> ex_group = ex_group\<lparr>use_kahan_summation := False\<rparr>
   \<and> data (fst (snd (update_param exact ex_group_kahan (ex_param, Some ex_state_compensated))))
       = \<lparr>dtype_of = Float32, elems = [380000002/200000001]\<rparr>
   \<and> data (fst (snd (update_param exact ex_group (ex_param, Some ex_state_compensated))))
       = \<lparr>dtype_of = Float32, elems = [180000001/200000001]\<rparr>
   \<and> data (fst (snd (update_param exact ex_group_kahan (ex_param, Some ex_state_compensated))))
       \<noteq> data (fst (snd (update_param exact ex_group (ex_param, Some ex_state_compensated))))"
  by (simp add: ex_update_kahan_compensated ex_update_direct_compensated)
    (simp add: ex_state_compensated_def ex_state_def ex_group_kahan_def ex_group_def)

text \<open>
  Claim C9, amended. Under exact arithmetic, from the same starting state, none yet or a
  state whose compensation buffer is zero (as every state reached under exact arithmetic
  from a fresh parameter is),
  one call with Kahan summation and one without raise nothing and leave the same
  parameter, the same counter and the same moment buffers; the compensation buffer is
  zero after the compensated call. The same holds for every run of calls on a fresh
  parameter: with and without Kahan summation the run ends with the same parameter, and
  the compensation buffer is zero whenever it exists. From a starting state with any
  compensation buffer \<open>c\<close>, the compensated call leaves the parameter of the direct call
  plus \<open>c\<close>, element by element, the same counter and moment buffers, and a compensation
  buffer of zeros. Shapes agree as torch has them: gradients and state buffers have the
  shape of the parameter. Division is the total division of the reals, \<open>x / 0 = 0\<close>; where
  the centered variance has a zero element both modes of the source divide by zero.
\<close>

theorem kahan_equals_direct_when_exact:
  fixes g :: group and p :: param and st :: "pstate option" and gr :: tensor
    and grs :: "gradient option list"
  defines "n \<equiv> length (elems (data p))"
  defines "rk \<equiv> update_param exact (g\<lparr>use_kahan_summation := True\<rparr>)
                   (p\<lparr>grad := Some (Dense gr)\<rparr>, st)"
  defines "rd \<equiv> update_param exact (g\<lparr>use_kahan_summation := False\<rparr>)
                   (p\<lparr>grad := Some (Dense gr)\<rparr>, st)"
  defines "runk \<equiv> run_calls exact (g\<lparr>use_kahan_summation := True\<rparr>) grs (p, None)"
  defines "rund \<equiv> run_calls exact (g\<lparr>use_kahan_summation := False\<rparr>) grs (p, None)"
  shows "(length (elems gr) = n \<and>
          (st = None \<or>
           (\<exists>s c. st = Some s \<and> length (elems (exp_avg s)) = n \<and>
              length (elems (exp_avg_sq s)) = n \<and> compensation s = Some c \<and>
              elems c = replicate n 0)) \<longrightarrow>
          fst rk = None \<and> fst rd = None \<and> fst (snd rk) = fst (snd rd)
          \<and> (\<exists>sk sd ck. snd (snd rk) = Some sk \<and> snd (snd rd) = Some sd
               \<and> step sk = step sd \<and> exp_avg sk = exp_avg sd
               \<and> exp_avg_sq sk = exp_avg_sq sd
               \<and> compensation sk = Some ck \<and> elems ck = replicate n 0))
     \<and> ((\<forall>x\<in>set grs. x = None \<or> (\<exists>t. x = Some (Dense t) \<and> length (elems t) = n)) \<longrightarrow>
          fst runk = None \<and> fst rund = None \<and> fst (snd runk) = fst (snd rund)
          \<and> exact_twins n (snd (snd runk)) (snd (snd rund))
          \<and> (\<forall>sk. snd (snd runk) = Some sk \<longrightarrow>
                (\<exists>ck. compensation sk = Some ck \<and> elems ck = replicate n 0)))
     \<and> (\<forall>s c. length (elems gr) = n \<and> st = Some s \<and> length (elems (exp_avg s)) = n \<and>
              length (elems (exp_avg_sq s)) = n \<and> compensation s = Some c \<and>
              length (elems c) = n \<longrightarrow>
          fst rk = None \<and> fst rd = None
          \<and> elems (data (fst (snd rk))) =
              map2 (\<lambda>a b. a + b) (elems (data (fst (snd rd)))) (elems c)
          \<and> dtype_of (data (fst (snd rk))) = dtype_of (data (fst (snd rd)))
          \<and> grad (fst (snd rk)) = grad (fst (snd rd))
          \<and> (\<exists>sk sd ck. snd (snd rk) = Some sk \<and> snd (snd rd) = Some sd
               \<and> step sk = step sd \<and> exp_avg sk = exp_avg sd
               \<and> exp_avg_sq sk = exp_avg_sq sd
               \<and> compensation sk = Some ck \<and> elems ck = replicate n 0))"
proof -
  have one: "fst rk = None \<and> fst rd = None \<and> fst (snd rk) = fst (snd rd)
          \<and> (\<exists>sk sd ck. snd (snd rk) = Some sk \<and> snd (snd rd) = Some sd
               \<and> step sk = step sd \<and> exp_avg sk = exp_avg sd
               \<and> exp_avg_sq sk = exp_avg_sq sd
               \<and> compensation sk = Some ck \<and> elems ck = replicate n 0)"
    if shape: "length (elems gr) = n"
      and start: "st = None \<or>
           (\<exists>s c. st = Some s \<and> length (elems (exp_avg s)) = n \<and>
              length (elems (exp_avg_sq s)) = n \<and> compensation s = Some c \<and>
              elems c = replicate n 0)"
  proof -
    from start have tw: "exact_twins n st st"
      by (auto simp: exact_twins_same)
    from kahan_direct_step[of gr p st st g] shape tw
    obtain p' sk' sd' where "rk = (None, p', Some sk')" "rd = (None, p', Some sd')"
      "exact_twins n (Some sk') (Some sd')"
      unfolding rk_def rd_def n_def by auto
    then show ?thesis
      by (auto simp: exact_twins_def split: option.splits)
  qed
  have many: "fst runk = None \<and> fst rund = None \<and> fst (snd runk) = fst (snd rund)
          \<and> exact_twins n (snd (snd runk)) (snd (snd rund))
          \<and> (\<forall>sk. snd (snd runk) = Some sk \<longrightarrow>
                (\<exists>ck. compensation sk = Some ck \<and> elems ck = replicate n 0))"
    if h: "\<forall>x\<in>set grs. x = None \<or> (\<exists>t. x = Some (Dense t) \<and> length (elems t) = n)"
  proof -
    have len: "length (elems (data p)) = n" by (simp add: n_def)
    from kahan_direct_run[OF h len exact_twins_None, of g]
    obtain p' stk' std' where "runk = (None, p', stk')" "rund = (None, p', std')"
      "exact_twins n stk' std'"
      unfolding runk_def rund_def by auto
    then show ?thesis
      by (auto simp: exact_twins_def split: option.splits)
  qed
  have from_any: "fst rk = None \<and> fst rd = None
          \<and> elems (data (fst (snd rk))) =
              map2 (\<lambda>a b. a + b) (elems (data (fst (snd rd)))) (elems c)
          \<and> dtype_of (data (fst (snd rk))) = dtype_of (data (fst (snd rd)))
          \<and> grad (fst (snd rk)) = grad (fst (snd rd))
          \<and> (\<exists>sk sd ck. snd (snd rk) = Some sk \<and> snd (snd rd) = Some sd
               \<and> step sk = step sd \<and> exp_avg sk = exp_avg sd
               \<and> exp_avg_sq sk = exp_avg_sq sd
               \<and> compensation sk = Some ck \<and> elems ck = replicate n 0)"
    if shape: "length (elems gr) = n" and st: "st = Some s"
      and lens: "length (elems (exp_avg s)) = n" "length (elems (exp_avg_sq s)) = n"
      and comp: "compensation s = Some c" and lc: "length (elems c) = n"
    for s c
  proof -
    from kahan_step_from_any_compensation[where g = g and p = p and s = s and gr = gr and c = c]
      shape lens comp lc
    obtain pk pd sk sd ck where "rk = (None, pk, Some sk)" "rd = (None, pd, Some sd)"
      "elems (data pk) = map2 (\<lambda>a b. a + b) (elems (data pd)) (elems c)"
      "dtype_of (data pk) = dtype_of (data pd)" "grad pk = grad pd"
      "step sk = step sd" "exp_avg sk = exp_avg sd" "exp_avg_sq sk = exp_avg_sq sd"
      "compensation sk = Some ck" "elems ck = replicate n 0"
      unfolding rk_def rd_def n_def st by auto
    then show ?thesis by simp
  qed
  from one many from_any show ?thesis by blast
qed

theorem step_size_and_centered_variance_witness:
  "step_size exact (lr ex_group) (beta1 ex_group) 1 = 1
   \<and> (\<exists>s'. snd (snd (update_param exact ex_group (ex_param, None))) = Some s'
         \<and> step s' = 1
         \<and> elems (data (fst (snd (update_param exact ex_group (ex_param, None)))))
            = map3 (\<lambda>a m v. a - lr ex_group / (1 - beta1 ex_group ^ step s')
                         * (m / (sqrt v / sqrt (1 - beta2 ex_group ^ step s') + eps ex_group)))
                [1] [1/5] [1/250])"
  using step_size_and_centered_variance
    [where g = ex_group and p = ex_param and gr = ex_grad and st = None and R = exact
       and l = "lr ex_group" and ?b1.0 = "beta1 ex_group" and t = 1 and ?b2.0 = "beta2 ex_group"
       and v = "\<lparr>dtype_of = Float32, elems = [1/250]\<rparr>" and e = "eps ex_group"
       and dc = "sqrt (1/1000)"]
  by (simp add: ex_param_grad ex_update_direct step_of_def)
    (simp add: ex_defs)

lemma ex_update_decay:
  "update_param exact ex_group_decay (ex_param_zero_grad, None) =
     (None,
      ex_param_zero_grad\<lparr>data := \<lparr>dtype_of = Float32, elems = [99/50]\<rparr>\<rparr>,
      Some \<lparr>step = 1,
            exp_avg = \<lparr>dtype_of = Float32, elems = [0]\<rparr>,
            exp_avg_sq = \<lparr>dtype_of = Float32, elems = [0]\<rparr>,
            compensation = None\<rparr>)"
  by (simp add: update_param_dense ex_group_decay_def ex_param_zero_grad_def ex_defs eval_defs)

lemma ex_update_decayed:
  "update_param exact (ex_group_decay\<lparr>weight_decay := 0\<rparr>)
     (ex_param_zero_grad\<lparr>data := \<lparr>dtype_of = Float32, elems = [99/50]\<rparr>\<rparr>, None) =
     (None,
      ex_param_zero_grad\<lparr>data := \<lparr>dtype_of = Float32, elems = [99/50]\<rparr>\<rparr>,
      Some \<lparr>step = 1,
            exp_avg = \<lparr>dtype_of = Float32, elems = [0]\<rparr>,
            exp_avg_sq = \<lparr>dtype_of = Float32, elems = [0]\<rparr>,
            compensation = None\<rparr>)"
  by (simp add: update_param_dense ex_group_decay_def ex_param_zero_grad_def ex_defs eval_defs)

theorem weight_decay_before_update_witness:
  "weight_decay ex_group_decay \<noteq> 0
   \<and> weight_decay ex_group = 0
   \<and> elems (data ex_param_zero_grad) = [2]
   \<and> fst (update_param exact ex_group_decay (ex_param_zero_grad, None)) = None
   \<and> elems (data (fst (snd (update_param exact ex_group_decay (ex_param_zero_grad, None)))))
       = [99/50]
   \<and> update_param exact ex_group_decay (ex_param_zero_grad, None) =
       update_param exact (ex_group_decay\<lparr>weight_decay := 0\<rparr>)
         (ex_param_zero_grad\<lparr>data := \<lparr>dtype_of = Float32, elems = [99/50]\<rparr>\<rparr>, None)
   \<and> data (fst (snd (update_param exact ex_group (ex_param, None))))
       = \<lparr>dtype_of = Float32, elems = [180000001/200000001]\<rparr>"
  using weight_decay_before_update
    [where R = exact and g = ex_group_decay and p = ex_param_zero_grad
       and gr = "\<lparr>dtype_of = Float32, elems = [0]\<rparr>" and st = None]
    weight_decay_before_update
    [where R = exact and g = ex_group and p = ex_param and gr = ex_grad and st = None]
  by (simp add: ex_update_direct ex_update_decay ex_update_decayed)
    (simp add: ex_group_decay_def ex_group_def ex_param_zero_grad_def)

theorem kahan_equals_direct_when_exact_witness:
  "length (elems ex_grad) = length (elems (data ex_param))
   \<and> length (elems (exp_avg ex_state)) = length (elems (data ex_param))
   \<and> length (elems (exp_avg_sq ex_state)) = length (elems (data ex_param))
   \<and> compensation ex_state = Some \<lparr>dtype_of = Float32, elems = [0]\<rparr>
   \<and> fst (snd (update_param exact (ex_group\<lparr>use_kahan_summation := True\<rparr>) (ex_param, None)))
       = fst (snd (update_param exact (ex_group\<lparr>use_kahan_summation := False\<rparr>) (ex_param, None)))
   \<and> fst (snd (update_param exact (ex_group\<lparr>use_kahan_summation := True\<rparr>)
                  (ex_param, Some ex_state)))
       = fst (snd (update_param exact (ex_group\<lparr>use_kahan_summation := False\<rparr>)
                  (ex_param, Some ex_state)))
   \<and> (\<exists>sk ck. snd (snd (update_param exact (ex_group\<lparr>use_kahan_summation := True\<rparr>)
                  (ex_param, Some ex_state))) = Some sk
         \<and> compensation sk = Some ck \<and> elems ck = [0])
   \<and> fst (snd (run_calls exact (ex_group\<lparr>use_kahan_summation := True\<rparr>)
                  [Some (Dense ex_grad), None, Some (Dense ex_grad)] (ex_param, None)))
       = fst (snd (run_calls exact (ex_group\<lparr>use_kahan_summation := False\<rparr>)
                  [Some (Dense ex_grad), None, Some (Dense ex_grad)] (ex_param, None)))
   \<and> length (elems (exp_avg ex_state_compensated)) = length (elems (data ex_param))
   \<and> length (elems (exp_avg_sq ex_state_compensated)) = length (elems (data ex_param))
   \<and> compensation ex_state_compensated = Some \<lparr>dtype_of = Float32, elems = [1]\<rparr>
   \<and> elems (data (fst (snd (update_param exact (ex_group\<lparr>use_kahan_summation := True\<rparr>)
                  (ex_param, Some ex_state_compensated)))))
       = map2 (\<lambda>a b. a + b)
           (elems (data (fst (snd (update_param exact (ex_group\<lparr>use_kahan_summation := False\<rparr>)
                  (ex_param, Some ex_state_compensated)))))) [1]
   \<and> (\<exists>sk ck. snd (snd (update_param exact (ex_group\<lparr>use_kahan_summation := True\<rparr>)
                  (ex_param, Some ex_state_compensated))) = Some sk
         \<and> compensation sk = Some ck \<and> elems ck = [0])"
proof -
  have h1: "length (elems ex_grad) = length (elems (data ex_param))"
    by (simp add: ex_defs)
  have h2: "length (elems (exp_avg ex_state)) = length (elems (data ex_param))"
    "length (elems (exp_avg_sq ex_state)) = length (elems (data ex_param))"
    "compensation ex_state = Some \<lparr>dtype_of = Float32, elems = [0]\<rparr>"
    "elems \<lparr>dtype_of = Float32, elems = [0]\<rparr> = replicate (length (elems (data ex_param))) 0"
    by (simp_all add: ex_defs ex_state_def)
  have h3: "length (elems (exp_avg ex_state_compensated)) = length (elems (data ex_param))"
    "length (elems (exp_avg_sq ex_state_compensated)) = length (elems (data ex_param))"
    "compensation ex_state_compensated = Some \<lparr>dtype_of = Float32, elems = [1]\<rparr>"
    "length (elems \<lparr>dtype_of = Float32, elems = [1::real]\<rparr>) = length (elems (data ex_param))"
    by (simp_all add: ex_defs ex_state_compensated_def ex_state_def)
  have n1: "length (elems (data ex_param)) = 1"
    by (simp add: ex_defs)
  note T = kahan_equals_direct_when_exact[where g = ex_group and p = ex_param and gr = ex_grad
      and grs = "[Some (Dense ex_grad), None, Some (Dense ex_grad)]"]
  from T[where st = None] T[where st = "Some ex_state"] h1 h2
  have old: "fst (snd (update_param exact (ex_group\<lparr>use_kahan_summation := True\<rparr>) (ex_param, None)))
       = fst (snd (update_param exact (ex_group\<lparr>use_kahan_summation := False\<rparr>) (ex_param, None)))
   \<and> fst (snd (update_param exact (ex_group\<lparr>use_kahan_summation := True\<rparr>)
                  (ex_param, Some ex_state)))
       = fst (snd (update_param exact (ex_group\<lparr>use_kahan_summation := False\<rparr>)
                  (ex_param, Some ex_state)))
   \<and> (\<exists>sk ck. snd (snd (update_param exact (ex_group\<lparr>use_kahan_summation := True\<rparr>)
                  (ex_param, Some ex_state))) = Some sk
         \<and> compensation sk = Some ck \<and> elems ck = [0])
   \<and> fst (snd (run_calls exact (ex_group\<lparr>use_kahan_summation := True\<rparr>)
                  [Some (Dense ex_grad), None, Some (Dense ex_grad)] (ex_param, None)))
       = fst (snd (run_calls exact (ex_group\<lparr>use_kahan_summation := False\<rparr>)
                  [Some (Dense ex_grad), None, Some (Dense ex_grad)] (ex_param, None)))"
    unfolding ex_param_grad by (auto simp: n1)
  from T[where st = "Some ex_state_compensated"] h1 h3
  have new: "elems (data (fst (snd (update_param exact (ex_group\<lparr>use_kahan_summation := True\<rparr>)
                  (ex_param, Some ex_state_compensated)))))
       = map2 (\<lambda>a b. a + b)
           (elems (data (fst (snd (update_param exact (ex_group\<lparr>use_kahan_summation := False\<rparr>)
                  (ex_param, Some ex_state_compensated)))))) [1]
   \<and> (\<exists>sk ck. snd (snd (update_param exact (ex_group\<lparr>use_kahan_summation := True\<rparr>)
                  (ex_param, Some ex_state_compensated))) = Some sk
         \<and> compensation sk = Some ck \<and> elems ck = [0])"
    unfolding ex_param_grad by (auto simp: n1)
  from old new h1 h2(1-3) h3(1-3) show ?thesis
    by (intro conjI) (elim conjE, assumption)+
qed

end
